theory Spec2Isabelle
  imports Complex_Main
begin

section \<open>JavaScript numbers\<close>

text \<open>
  The services compute on JavaScript numbers. A number is modelled as a finite real, the
  negative zero, one of the two infinities, or NaN. \<open>Fin 0\<close> is the positive zero.
  Arithmetic on finite values is exact (no rounding, no overflow, no underflow); the
  special values follow IEEE 754 as JavaScript exposes it: \<open>0/0\<close> and
  \<open>Infinity - Infinity\<close> are NaN, a nonzero value divided by a zero is an infinity
  whose sign is the product of the signs, NaN propagates through arithmetic, and every
  comparison with NaN is false.
\<close>

datatype jsnum = Fin real | NegZero | PInf | NInf | NaN

fun is_fin :: "jsnum \<Rightarrow> bool" where
  "is_fin (Fin x) = True"
| "is_fin NegZero = True"
| "is_fin PInf = False"
| "is_fin NInf = False"
| "is_fin NaN = False"

fun nval :: "jsnum \<Rightarrow> real" where
  "nval (Fin x) = x"
| "nval NegZero = 0"
| "nval PInf = 0"
| "nval NInf = 0"
| "nval NaN = 0"

fun sign_neg :: "jsnum \<Rightarrow> bool" where
  "sign_neg (Fin x) = (x < 0)"
| "sign_neg NegZero = True"
| "sign_neg PInf = False"
| "sign_neg NInf = True"
| "sign_neg NaN = False"

definition is_zero :: "jsnum \<Rightarrow> bool" where
  "is_zero a = (a = Fin 0 \<or> a = NegZero)"

definition signed_zero :: "bool \<Rightarrow> jsnum" where
  "signed_zero s = (if s then NegZero else Fin 0)"

definition signed_inf :: "bool \<Rightarrow> jsnum" where
  "signed_inf s = (if s then NInf else PInf)"

definition mk_fin :: "bool \<Rightarrow> real \<Rightarrow> jsnum" where
  "mk_fin s x = (if x = 0 then signed_zero s else Fin x)"

text \<open>Unary minus.\<close>

fun jneg :: "jsnum \<Rightarrow> jsnum" where
  "jneg (Fin x) = (if x = 0 then NegZero else Fin (- x))"
| "jneg NegZero = Fin 0"
| "jneg PInf = NInf"
| "jneg NInf = PInf"
| "jneg NaN = NaN"

text \<open>\<open>a + b\<close>: the sum of two zeros is \<open>-0\<close> only when both are; \<open>x + (-x)\<close> is \<open>+0\<close>.\<close>

fun jadd :: "jsnum \<Rightarrow> jsnum \<Rightarrow> jsnum" where
  "jadd NaN b = NaN"
| "jadd a NaN = NaN"
| "jadd PInf NInf = NaN"
| "jadd NInf PInf = NaN"
| "jadd PInf b = PInf"
| "jadd a PInf = PInf"
| "jadd NInf b = NInf"
| "jadd a NInf = NInf"
| "jadd NegZero NegZero = NegZero"
| "jadd NegZero (Fin y) = Fin y"
| "jadd (Fin x) NegZero = Fin x"
| "jadd (Fin x) (Fin y) = Fin (x + y)"

text \<open>\<open>a - b\<close> is \<open>a + (-b)\<close>.\<close>

definition jsub :: "jsnum \<Rightarrow> jsnum \<Rightarrow> jsnum" where
  "jsub a b = jadd a (jneg b)"

definition jmul :: "jsnum \<Rightarrow> jsnum \<Rightarrow> jsnum" where
  "jmul a b =
     (if a = NaN \<or> b = NaN then NaN
      else if is_fin a \<and> is_fin b then mk_fin (sign_neg a \<noteq> sign_neg b) (nval a * nval b)
      else if is_zero a \<or> is_zero b then NaN
      else signed_inf (sign_neg a \<noteq> sign_neg b))"

definition jdiv :: "jsnum \<Rightarrow> jsnum \<Rightarrow> jsnum" where
  "jdiv a b =
     (if a = NaN \<or> b = NaN then NaN
      else if is_fin a then
        (if is_fin b then
           (if is_zero b then (if is_zero a then NaN else signed_inf (sign_neg a \<noteq> sign_neg b))
            else mk_fin (sign_neg a \<noteq> sign_neg b) (nval a / nval b))
         else signed_zero (sign_neg a \<noteq> sign_neg b))
      else (if is_fin b then signed_inf (sign_neg a \<noteq> sign_neg b) else NaN))"

text \<open>The relational operators \<open><\<close>, \<open>>\<close>, \<open><=\<close>, \<open>>=\<close> and \<open>===\<close>.\<close>

definition jlt :: "jsnum \<Rightarrow> jsnum \<Rightarrow> bool" where
  "jlt a b =
     (a \<noteq> NaN \<and> b \<noteq> NaN \<and>
      (if is_fin a \<and> is_fin b then nval a < nval b
       else (a = NInf \<and> b \<noteq> NInf) \<or> (b = PInf \<and> a \<noteq> PInf)))"

definition jgt :: "jsnum \<Rightarrow> jsnum \<Rightarrow> bool" where
  "jgt a b = jlt b a"

definition jle :: "jsnum \<Rightarrow> jsnum \<Rightarrow> bool" where
  "jle a b = (a \<noteq> NaN \<and> b \<noteq> NaN \<and> \<not> jlt b a)"

definition jge :: "jsnum \<Rightarrow> jsnum \<Rightarrow> bool" where
  "jge a b = jle b a"

definition jeq :: "jsnum \<Rightarrow> jsnum \<Rightarrow> bool" where
  "jeq a b = (a \<noteq> NaN \<and> b \<noteq> NaN \<and> (a = b \<or> (is_zero a \<and> is_zero b)))"

text \<open>\<open>Math.max\<close> and \<open>Math.min\<close> of two arguments: NaN if either is, and \<open>+0\<close> above \<open>-0\<close>.\<close>

definition jmax :: "jsnum \<Rightarrow> jsnum \<Rightarrow> jsnum" where
  "jmax a b =
     (if a = NaN \<or> b = NaN then NaN
      else if jlt a b then b else if jlt b a then a
      else if a = NegZero then b else a)"

definition jmin :: "jsnum \<Rightarrow> jsnum \<Rightarrow> jsnum" where
  "jmin a b =
     (if a = NaN \<or> b = NaN then NaN
      else if jlt a b then a else if jlt b a then b
      else if a = NegZero then a else b)"

text \<open>\<open>Math.sqrt\<close>, \<open>Math.log\<close>, \<open>Math.abs\<close>.\<close>

fun jsqrt :: "jsnum \<Rightarrow> jsnum" where
  "jsqrt (Fin x) = (if x < 0 then NaN else Fin (sqrt x))"
| "jsqrt NegZero = NegZero"
| "jsqrt PInf = PInf"
| "jsqrt NInf = NaN"
| "jsqrt NaN = NaN"

fun jlog :: "jsnum \<Rightarrow> jsnum" where
  "jlog (Fin x) = (if x < 0 then NaN else if x = 0 then NInf else Fin (ln x))"
| "jlog NegZero = NInf"
| "jlog PInf = PInf"
| "jlog NInf = NaN"
| "jlog NaN = NaN"

fun jabs :: "jsnum \<Rightarrow> jsnum" where
  "jabs (Fin x) = Fin \<bar>x\<bar>"
| "jabs NegZero = Fin 0"
| "jabs PInf = PInf"
| "jabs NInf = PInf"
| "jabs NaN = NaN"

text \<open>\<open>Math.pow(a, n)\<close> and \<open>a ** n\<close> for an exponent that is a natural number.\<close>

definition jpow :: "jsnum \<Rightarrow> nat \<Rightarrow> jsnum" where
  "jpow a n =
     (if n = 0 then Fin 1
      else case a of
        Fin x \<Rightarrow> Fin (x ^ n)
      | NegZero \<Rightarrow> (if even n then Fin 0 else NegZero)
      | PInf \<Rightarrow> PInf
      | NInf \<Rightarrow> (if even n then PInf else NInf)
      | NaN \<Rightarrow> NaN)"

text \<open>\<open>a || d\<close> on numbers: the zeros and NaN are falsy.\<close>

definition jor :: "jsnum \<Rightarrow> jsnum \<Rightarrow> jsnum" where
  "jor a d = (if a = NaN \<or> is_zero a then d else a)"

text \<open>\<open>xs.reduce((sum, x) => sum + f(x), 0)\<close>.\<close>

definition reduce_sum :: "('a \<Rightarrow> jsnum) \<Rightarrow> 'a list \<Rightarrow> jsnum" where
  "reduce_sum f xs = foldl (\<lambda>s x. jadd s (f x)) (Fin 0) xs"

section \<open>Volatility modelling service\<close>

text \<open>
  The error taxonomy of the design document. The services define no error type of their
  own and contain no \<open>throw\<close>; results are sums so that failing is expressible.
\<close>

datatype forecast_error = InsufficientDataError | ModelInstabilityError | InvalidInputError

record GarchParams =
  alpha :: jsnum
  beta :: jsnum
  omega :: jsnum

record VolatilityPrediction =
  current :: jsnum
  predicted1h :: jsnum
  predicted24h :: jsnum
  predicted7d :: jsnum
  confidence :: jsnum
  garchParams :: GarchParams

text \<open>The fields of an upgrade event that the services read.\<close>

record UpgradeEvent =
  eventType :: string
  riskScore :: jsnum

text \<open>\<open>calculateReturns\<close>: the loop \<open>for (i = 1; i < prices.length; i++)\<close> over neighbours.\<close>

fun calculateReturns :: "jsnum list \<Rightarrow> jsnum list" where
  "calculateReturns (p0 # p1 # ps) = jlog (jdiv p1 p0) # calculateReturns (p1 # ps)"
| "calculateReturns ps = []"

definition calculateVariance :: "jsnum list \<Rightarrow> jsnum" where
  "calculateVariance vs =
     (let n = Fin (real (length vs));
          mean = jdiv (reduce_sum (\<lambda>v. v) vs) n
      in jdiv (reduce_sum (\<lambda>v. jpow (jsub v mean) 2) vs) (jsub n (Fin 1)))"

definition calculateAutocorrelation :: "jsnum list \<Rightarrow> nat \<Rightarrow> jsnum" where
  "calculateAutocorrelation vs lag =
     (if lag \<ge> length vs then Fin 0
      else
        let n = length vs - lag;
            mean = jdiv (reduce_sum (\<lambda>v. v) vs) (Fin (real (length vs)));
            numerator = reduce_sum (\<lambda>(x, y). jmul (jsub x mean) (jsub y mean))
                          (zip (take n vs) (drop lag vs));
            denominator = reduce_sum (\<lambda>v. jpow (jsub v mean) 2) vs
        in jdiv numerator denominator)"

text \<open>
  The loop of \<open>calculateGARCHGradient\<close>, \<open>for (i = 1; i < n; i++)\<close>, reading
  \<open>returns[i - 1]\<close> and \<open>returns[i]\<close>; the state is the running variance and the three
  accumulated gradients.
\<close>

fun gradientLoop ::
  "jsnum \<Rightarrow> jsnum \<Rightarrow> jsnum \<Rightarrow> jsnum list \<Rightarrow> jsnum \<times> jsnum \<times> jsnum \<times> jsnum
     \<Rightarrow> jsnum \<times> jsnum \<times> jsnum \<times> jsnum" where
  "gradientLoop a b w (rp # r # rs) (v, gradAlpha, gradBeta, gradOmega) =
     (let prevVariance = v;
          variance = jadd (jadd w (jmul a (jpow rp 2))) (jmul b v);
          residual = jsub (jpow r 2) variance
      in gradientLoop a b w (r # rs)
           (variance,
            jadd gradAlpha (jdiv (jmul residual (jpow rp 2)) variance),
            jadd gradBeta (jdiv (jmul residual prevVariance) variance),
            jadd gradOmega (jdiv residual variance)))"
| "gradientLoop a b w rs st = st"

definition calculateGARCHGradient ::
  "jsnum list \<Rightarrow> jsnum \<Rightarrow> jsnum \<Rightarrow> jsnum \<Rightarrow> GarchParams" where
  "calculateGARCHGradient rs a b w =
     (let n = Fin (real (length rs));
          longRun = jdiv w (jsub (jsub (Fin 1) a) b)
      in case gradientLoop a b w rs (longRun, Fin 0, Fin 0, Fin 0) of
           (v, gradAlpha, gradBeta, gradOmega) \<Rightarrow>
             \<lparr>alpha = jdiv (jneg gradAlpha) n,
              beta = jdiv (jneg gradBeta) n,
              omega = jdiv (jneg gradOmega) n\<rparr>)"

definition optimizeGARCH :: "jsnum list \<Rightarrow> jsnum \<Rightarrow> jsnum \<Rightarrow> jsnum \<Rightarrow> GarchParams" where
  "optimizeGARCH rs a b w =
     (let learningRate = Fin 0.001;
          gradient = calculateGARCHGradient rs a b w
      in \<lparr>alpha = jmax (Fin 0.01) (jmin (Fin 0.99) (jsub a (jmul learningRate (alpha gradient)))),
          beta = jmax (Fin 0.01) (jmin (Fin 0.99) (jsub b (jmul learningRate (beta gradient)))),
          omega = jmax (Fin 0.001) (jsub w (jmul learningRate (omega gradient)))\<rparr>)"

text \<open>The refinement loop of \<open>fitGARCH\<close>; the first argument counts the iterations left.\<close>

fun fitLoop :: "nat \<Rightarrow> jsnum list \<Rightarrow> GarchParams \<Rightarrow> GarchParams" where
  "fitLoop 0 rs p = p"
| "fitLoop (Suc k) rs p = fitLoop k rs (optimizeGARCH rs (alpha p) (beta p) (omega p))"

definition fitGARCH :: "jsnum list \<Rightarrow> GarchParams" where
  "fitGARCH rs =
     (let variance = calculateVariance rs;
          autocorr = calculateAutocorrelation (map (\<lambda>r. jmul r r) rs) 1;
          a = Fin 0.1;
          b = Fin 0.85;
          w = jmul variance (jsub (jsub (Fin 1) a) b)
      in fitLoop 100 rs \<lparr>alpha = a, beta = b, omega = w\<rparr>)"

text \<open>
  \<open>calculateCurrentVolatility\<close>: the loop runs over the indices
  \<open>length - 20, ..., length - 1\<close> and skips the negative ones, that is over the last 20
  returns (all of them when there are fewer).
\<close>

definition calculateCurrentVolatility :: "jsnum list \<Rightarrow> jsnum" where
  "calculateCurrentVolatility rs =
     (let lambda = Fin 0.94
      in jsqrt (foldl (\<lambda>variance r.
                  jadd (jmul lambda variance) (jmul (jsub (Fin 1) lambda) (jpow r 2)))
                (calculateVariance rs) (drop (length rs - 20) rs)))"

definition eventMultiplier :: "UpgradeEvent option \<Rightarrow> jsnum" where
  "eventMultiplier ev =
     (case ev of None \<Rightarrow> Fin 1
      | Some e \<Rightarrow> jadd (Fin 1) (jmul (jdiv (riskScore e) (Fin 100)) (Fin 0.5)))"

text \<open>\<open>generateVolatilityPredictions\<close> returns \<open>(h1, d1, d7, confidence)\<close>.\<close>

definition generateVolatilityPredictions ::
  "jsnum \<Rightarrow> GarchParams \<Rightarrow> UpgradeEvent option \<Rightarrow> jsnum \<times> jsnum \<times> jsnum \<times> jsnum" where
  "generateVolatilityPredictions cur gp ev =
     (let a = alpha gp; b = beta gp; w = omega gp;
          longRunVariance = jdiv w (jsub (jsub (Fin 1) a) b);
          m = eventMultiplier ev;
          h1 = jmul (jsqrt (jadd (jadd w (jmul a (jpow cur 2))) (jmul b (jpow cur 2)))) m;
          d1 = jmul (jsqrt (jadd (jadd w (jmul (jadd a b) (jpow cur 2)))
                 (jmul (jdiv (jsub (Fin 1) (jpow (jadd a b) 24)) (jsub (Fin 1) (jadd a b)))
                       (jsub longRunVariance (jpow cur 2))))) m;
          d7 = jmul (jsqrt (jadd longRunVariance
                 (jmul (jpow (jadd a b) (7 * 24)) (jsub (jpow cur 2) longRunVariance)))) m;
          conf = jmax (Fin 0.5) (jsub (Fin 1) (jabs (jsub (jadd a b) (Fin 0.95))))
      in (h1, d1, d7, conf))"

text \<open>
  \<open>predictVolatility\<close> is a \<open>try\<close> block with a \<open>catch\<close> clause that returns a record
  of random numbers. The body of the \<open>try\<close> block is arithmetic on numbers and array
  reads inside the loop bounds; none of these operations throws for a \<open>number[]\<close>
  argument, so the body has no branch that yields an exception. The values drawn from
  \<open>Math.random()\<close> are the parameter \<open>rnd\<close>, indexed in the order of the calls.
\<close>

datatype js_exception = Thrown

definition predictVolatility_try ::
  "jsnum list \<Rightarrow> UpgradeEvent option \<Rightarrow> js_exception + VolatilityPrediction" where
  "predictVolatility_try historicalPrices upgradeEvent =
     (let returns = calculateReturns historicalPrices;
          gp = fitGARCH returns;
          currentVolatility = calculateCurrentVolatility returns
      in case generateVolatilityPredictions currentVolatility gp upgradeEvent of
           (h1, d1, d7, conf) \<Rightarrow>
             Inr \<lparr>current = currentVolatility, predicted1h = h1, predicted24h = d1,
                  predicted7d = d7, confidence = conf, garchParams = gp\<rparr>)"

definition mockVolatilityPrediction :: "(nat \<Rightarrow> real) \<Rightarrow> VolatilityPrediction" where
  "mockVolatilityPrediction rnd =
     \<lparr>current = jadd (jmul (Fin (rnd 0)) (Fin 0.5)) (Fin 0.1),
      predicted1h = jadd (jmul (Fin (rnd 1)) (Fin 0.6)) (Fin 0.1),
      predicted24h = jadd (jmul (Fin (rnd 2)) (Fin 0.8)) (Fin 0.2),
      predicted7d = jadd (jmul (Fin (rnd 3)) (Fin 1.0)) (Fin 0.3),
      confidence = jadd (jmul (Fin (rnd 4)) (Fin 0.4)) (Fin 0.6),
      garchParams = \<lparr>alpha = jadd (jmul (Fin (rnd 5)) (Fin 0.1)) (Fin 0.05),
                     beta = jadd (jmul (Fin (rnd 6)) (Fin 0.3)) (Fin 0.7),
                     omega = jadd (jmul (Fin (rnd 7)) (Fin 0.01)) (Fin 0.005)\<rparr>\<rparr>"

text \<open>
  Both paths of \<open>predictVolatility\<close> return a record: the result is never one of the
  errors of the design document.
\<close>

definition predictVolatility ::
  "jsnum list \<Rightarrow> UpgradeEvent option \<Rightarrow> (nat \<Rightarrow> real)
     \<Rightarrow> forecast_error + VolatilityPrediction" where
  "predictVolatility historicalPrices upgradeEvent rnd =
     (case predictVolatility_try historicalPrices upgradeEvent of
        Inr prediction \<Rightarrow> Inr prediction
      | Inl error \<Rightarrow> Inr (mockVolatilityPrediction rnd))"

section \<open>Execution guidance service\<close>

datatype action = Buy | Sell | Hold | Hedge

datatype flow = Inflow | Outflow | Stable

record RiskAssessment =
  overall :: jsnum
  technical :: jsnum
  governance :: jsnum
  market :: jsnum
  liquidity :: jsnum
  timestamp :: jsnum

record LiquidityPrediction =
  currentTVL :: jsnum
  predictedTVL1h :: jsnum
  predictedTVL24h :: jsnum
  predictedTVL7d :: jsnum
  flowDirection :: flow
  confidence :: jsnum

text \<open>
  \<open>marketData\<close> and \<open>userProfile\<close> are untyped in the source; the records hold the one
  field of each that the service reads.
\<close>

record MarketData =
  change24h :: jsnum

record UserProfile =
  riskTolerance :: jsnum

record Timing =
  entry :: jsnum
  exit :: jsnum

record Rebalancing =
  asset :: string
  currentWeight :: jsnum
  recommendedWeight :: jsnum

record ExecutionGuidance =
  action :: action
  confidence :: jsnum
  optimalTiming :: Timing
  riskMitigation :: "string list"
  portfolioRebalancing :: "Rebalancing list"

text \<open>\<open>determineOptimalAction\<close>; the score is a small integer.\<close>

definition determineOptimalAction ::
  "RiskAssessment \<Rightarrow> VolatilityPrediction \<Rightarrow> LiquidityPrediction \<Rightarrow> MarketData \<Rightarrow> action" where
  "determineOptimalAction riskAssessment volatilityPrediction liquidityPrediction marketData =
     (let s0 = (0::int);
          s1 = (if jlt (overall riskAssessment) (Fin 30) then s0 + 2
                else if jgt (overall riskAssessment) (Fin 70) then s0 - 2 else s0);
          s2 = (if jgt (predicted24h volatilityPrediction)
                       (jmul (current volatilityPrediction) (Fin 1.5))
                then s1 - 1 else s1);
          s3 = (if flowDirection liquidityPrediction = Inflow then s2 + 1
                else if flowDirection liquidityPrediction = Outflow then s2 - 1 else s2);
          actionScore = (if jgt (change24h marketData) (Fin 5) then s3 + 1
                else if jlt (change24h marketData) (Fin (- 5)) then s3 - 1 else s3)
      in if actionScore \<ge> 2 then Buy
         else if actionScore \<le> - 2 then Sell
         else if jgt (overall riskAssessment) (Fin 60)
                 \<or> jgt (predicted24h volatilityPrediction) (Fin 0.5) then Hedge
         else Hold)"

definition calculateRiskConsistency :: "RiskAssessment \<Rightarrow> jsnum" where
  "calculateRiskConsistency riskAssessment =
     (let risks = [technical riskAssessment, governance riskAssessment,
                   market riskAssessment, liquidity riskAssessment];
          mean = jdiv (reduce_sum (\<lambda>risk. risk) risks) (Fin (real (length risks)));
          variance = jdiv (reduce_sum (\<lambda>risk. jpow (jsub risk mean) 2) risks)
                          (Fin (real (length risks)))
      in jmax (Fin 0.3) (jsub (Fin 1) (jdiv (jsqrt variance) (Fin 50))))"

definition calculateActionConfidence ::
  "RiskAssessment \<Rightarrow> VolatilityPrediction \<Rightarrow> LiquidityPrediction \<Rightarrow> jsnum" where
  "calculateActionConfidence riskAssessment volatilityPrediction liquidityPrediction =
     (let volatilityConfidence = VolatilityPrediction.confidence volatilityPrediction;
          liquidityConfidence = LiquidityPrediction.confidence liquidityPrediction;
          riskConsistency = calculateRiskConsistency riskAssessment
      in jdiv (jadd (jadd volatilityConfidence liquidityConfidence) riskConsistency) (Fin 3))"

text \<open>\<open>calculateOptimalTiming\<close>; \<open>now\<close> is the value read from \<open>Date.now()\<close>.\<close>

definition calculateOptimalTiming ::
  "jsnum \<Rightarrow> VolatilityPrediction \<Rightarrow> LiquidityPrediction \<Rightarrow> action \<Rightarrow> Timing" where
  "calculateOptimalTiming now volatilityPrediction liquidityPrediction act =
     (let d0 = (if jlt (predicted1h volatilityPrediction) (current volatilityPrediction)
                then Fin 3600000 else Fin 0);
          entryDelay = (if flowDirection liquidityPrediction = Inflow \<and> act = Buy
                then jmin d0 (Fin 1800000) else d0);
          exitDelay = (if act = Hedge
                then (if jgt (predicted24h volatilityPrediction) (Fin 0.3)
                      then Fin 172800000 else Fin 86400000)
                else if act = Buy then Fin 604800000 else Fin 86400000)
      in \<lparr>entry = jadd now entryDelay, exit = jadd (jadd now entryDelay) exitDelay\<rparr>)"

definition generateRiskMitigationStrategies ::
  "RiskAssessment \<Rightarrow> VolatilityPrediction \<Rightarrow> action \<Rightarrow> string list" where
  "generateRiskMitigationStrategies riskAssessment volatilityPrediction act =
     [''Implement stop-loss orders at 5-10% below entry'',
      ''Monitor market conditions every 4 hours'']
     @ (if jgt (predicted24h volatilityPrediction) (Fin 0.3)
        then [''Use smaller position sizes due to high volatility'',
              ''Consider options strategies for volatility hedging''] else [])
     @ (if jgt (governance riskAssessment) (Fin 60)
        then [''Monitor governance proposals closely'',
              ''Prepare for potential governance-driven price movements''] else [])
     @ (if jgt (liquidity riskAssessment) (Fin 60)
        then [''Ensure sufficient liquidity buffers'',
              ''Consider staggered entry/exit strategies''] else [])
     @ (if jgt (technical riskAssessment) (Fin 60)
        then [''Review smart contract audit reports'',
              ''Monitor protocol upgrade implementations''] else [])
     @ (if act = Hedge
        then [''Use correlated assets for hedging'',
              ''Consider derivatives for downside protection''] else [])"

text \<open>
  The body of the \<open>forEach\<close> in \<open>generateRebalancingRecommendations\<close>: the weight
  recommended for one asset before the weights are normalised.
\<close>

definition adjustedWeight :: "RiskAssessment \<Rightarrow> jsnum \<Rightarrow> string \<Rightarrow> jsnum \<Rightarrow> jsnum" where
  "adjustedWeight riskAssessment overallRisk a w =
     (if a = ''USDC'' then jmin (Fin 0.5) (jadd w (jmul overallRisk (Fin 0.2)))
      else if a = ''PROTOCOL_TOKEN'' then
        (if jgt (technical riskAssessment) (Fin 60) \<or> jgt (governance riskAssessment) (Fin 60)
         then jmax (Fin 0.05) (jmul w (Fin 0.5)) else w)
      else w)"

definition generateRebalancingRecommendations ::
  "RiskAssessment \<Rightarrow> MarketData \<Rightarrow> UserProfile option \<Rightarrow> Rebalancing list" where
  "generateRebalancingRecommendations riskAssessment marketData userProfile =
     (let assets = [''ETH'', ''BTC'', ''USDC'', ''PROTOCOL_TOKEN''];
          currentWeights = [Fin 0.4, Fin 0.3, Fin 0.2, Fin 0.1];
          tolerance = (case userProfile of None \<Rightarrow> Fin 0.5
                       | Some u \<Rightarrow> jor (riskTolerance u) (Fin 0.5));
          overallRisk = jdiv (overall riskAssessment) (Fin 100);
          recommendations =
            map (\<lambda>(a, w). \<lparr>asset = a, currentWeight = w,
                              recommendedWeight = adjustedWeight riskAssessment overallRisk a w\<rparr>)
                (zip assets currentWeights);
          totalWeight = reduce_sum recommendedWeight recommendations
      in map (\<lambda>rec. rec\<lparr>recommendedWeight := jdiv (recommendedWeight rec) totalWeight\<rparr>)
           recommendations)"

text \<open>
  \<open>generateExecutionGuidance\<close>: a \<open>try\<close> block whose body does not throw for arguments
  of the declared types, and a \<open>catch\<close> clause with a default guidance. \<open>now\<close> is the
  value read from \<open>Date.now()\<close>.
\<close>

definition generateExecutionGuidance_try ::
  "RiskAssessment \<Rightarrow> VolatilityPrediction \<Rightarrow> LiquidityPrediction \<Rightarrow> MarketData
     \<Rightarrow> UserProfile option \<Rightarrow> jsnum \<Rightarrow> js_exception + ExecutionGuidance" where
  "generateExecutionGuidance_try riskAssessment volatilityPrediction liquidityPrediction
       marketData userProfile now =
     (let act = determineOptimalAction riskAssessment volatilityPrediction
                  liquidityPrediction marketData;
          conf = calculateActionConfidence riskAssessment volatilityPrediction
                  liquidityPrediction;
          timing = calculateOptimalTiming now volatilityPrediction liquidityPrediction act;
          mitigation = generateRiskMitigationStrategies riskAssessment volatilityPrediction act;
          rebalancing = generateRebalancingRecommendations riskAssessment marketData userProfile
      in Inr \<lparr>action = act, confidence = conf, optimalTiming = timing,
              riskMitigation = mitigation, portfolioRebalancing = rebalancing\<rparr>)"

definition defaultGuidance :: "jsnum \<Rightarrow> ExecutionGuidance" where
  "defaultGuidance now =
     \<lparr>action = Hold, confidence = Fin 0.5,
      optimalTiming = \<lparr>entry = jadd now (Fin 3600000), exit = jadd now (Fin 86400000)\<rparr>,
      riskMitigation = [''Monitor market conditions'', ''Set stop losses'',
                        ''Diversify holdings''],
      portfolioRebalancing = []\<rparr>"

definition generateExecutionGuidance ::
  "RiskAssessment \<Rightarrow> VolatilityPrediction \<Rightarrow> LiquidityPrediction \<Rightarrow> MarketData
     \<Rightarrow> UserProfile option \<Rightarrow> jsnum \<Rightarrow> forecast_error + ExecutionGuidance" where
  "generateExecutionGuidance riskAssessment volatilityPrediction liquidityPrediction
       marketData userProfile now =
     (case generateExecutionGuidance_try riskAssessment volatilityPrediction
             liquidityPrediction marketData userProfile now of
        Inr guidance \<Rightarrow> Inr guidance
      | Inl error \<Rightarrow> Inr (defaultGuidance now))"

section \<open>Liquidity prediction service\<close>

record TVLPoint =
  timestamp :: jsnum
  tvl :: jsnum

text \<open>\<open>calculateTrend\<close>: least-squares slope of the TVL against the index.\<close>

definition calculateTrend :: "TVLPoint list \<Rightarrow> jsnum" where
  "calculateTrend data =
     (if length data < 2 then Fin 0
      else
        let n = Fin (real (length data));
            idx = map (\<lambda>i. Fin (real i)) [0 ..< length data];
            sumX = reduce_sum (\<lambda>i. i) idx;
            sumY = reduce_sum tvl data;
            sumXY = reduce_sum (\<lambda>(i, d). jmul i (tvl d)) (zip idx data);
            sumXX = reduce_sum (\<lambda>i. jmul i i) idx
        in jdiv (jsub (jmul n sumXY) (jmul sumX sumY)) (jsub (jmul n sumXX) (jmul sumX sumX)))"

text \<open>
  \<open>calculateSeasonality\<close> reads the clock; the hour of the day and the day of the week
  (0 is Sunday) are parameters.
\<close>

definition calculateSeasonality :: "nat \<Rightarrow> nat \<Rightarrow> jsnum" where
  "calculateSeasonality hourOfDay dayOfWeek =
     (let hourlyMultiplier = (if hourOfDay \<ge> 8 \<and> hourOfDay \<le> 20 then Fin 1.1 else Fin 0.9);
          dailyMultiplier = (if dayOfWeek \<ge> 1 \<and> dayOfWeek \<le> 5 then Fin 1.05 else Fin 0.95)
      in jmul hourlyMultiplier dailyMultiplier)"

fun tvlReturns :: "TVLPoint list \<Rightarrow> jsnum list" where
  "tvlReturns (d0 # d1 # ds) = jdiv (jsub (tvl d1) (tvl d0)) (tvl d0) # tvlReturns (d1 # ds)"
| "tvlReturns ds = []"

definition calculateTVLVolatility :: "TVLPoint list \<Rightarrow> jsnum" where
  "calculateTVLVolatility data =
     (if length data < 2 then Fin 0.01
      else
        let returns = tvlReturns data;
            mean = jdiv (reduce_sum (\<lambda>r. r) returns) (Fin (real (length returns)));
            variance = jdiv (reduce_sum (\<lambda>r. jpow (jsub r mean) 2) returns)
                            (jsub (Fin (real (length returns))) (Fin 1))
        in jsqrt variance)"

text \<open>
  \<open>calculateEventImpact\<close> looks the event type up in an object literal with the three own
  keys \<open>governance\<close>, \<open>implementation\<close> and \<open>parameter\<close>. A JavaScript property read
  also finds the members the literal inherits from \<open>Object.prototype\<close>: for such a key the
  value read is a function (for \<open>__proto__\<close> the prototype object), which is truthy, so
  \<open>|| 1.0\<close> keeps it, and its product with a number is NaN. For every other string the
  read is \<open>undefined\<close> and the multiplier is 1.0.
\<close>

definition objectPrototypeKeys :: "string list" where
  "objectPrototypeKeys =
     [''constructor'', ''hasOwnProperty'', ''isPrototypeOf'', ''propertyIsEnumerable'',
      ''toLocaleString'', ''toString'', ''valueOf'', ''__proto__'',
      ''__defineGetter__'', ''__defineSetter__'', ''__lookupGetter__'', ''__lookupSetter__'']"

definition calculateEventImpact :: "UpgradeEvent \<Rightarrow> jsnum" where
  "calculateEventImpact upgradeEvent =
     (let baseMultiplier =
            (if eventType upgradeEvent = ''governance'' then Fin 0.95
             else if eventType upgradeEvent = ''implementation'' then Fin 0.85
             else if eventType upgradeEvent = ''parameter'' then Fin 1.05
             else if eventType upgradeEvent \<in> set objectPrototypeKeys then NaN
             else Fin 1.0);
          riskAdjustment = jsub (Fin 1) (jmul (jdiv (riskScore upgradeEvent) (Fin 100)) (Fin 0.2))
      in jmul baseMultiplier riskAdjustment)"

text \<open>
  \<open>generateTVLPredictions\<close> returns \<open>(h1, d1, d7, confidence)\<close>. The three values drawn
  from \<open>Math.random()\<close>, finite numbers in \<open>[0, 1)\<close>, are the parameters \<open>u1\<close>, \<open>u2\<close>,
  \<open>u3\<close>, in the order of the calls.
\<close>

definition randomComponent :: "real \<Rightarrow> jsnum \<Rightarrow> jsnum" where
  "randomComponent u volatility = jmul (jsub (Fin u) (Fin 0.5)) volatility"

definition generateTVLPredictions ::
  "jsnum \<Rightarrow> jsnum \<Rightarrow> jsnum \<Rightarrow> jsnum \<Rightarrow> jsnum \<Rightarrow> real \<Rightarrow> real \<Rightarrow> real
     \<Rightarrow> jsnum \<times> jsnum \<times> jsnum \<times> jsnum" where
  "generateTVLPredictions cur trend seasonality volatility eventImpact u1 u2 u3 =
     (let h1 = jmul (jmul (jmul cur
                 (jadd (jadd (Fin 1) (jmul trend (Fin (1 / 24 / 365))))
                       (randomComponent u1 volatility))) seasonality) eventImpact;
          d1 = jmul (jmul (jmul cur
                 (jadd (jadd (Fin 1) (jmul trend (Fin (1 / 365))))
                       (jmul (randomComponent u2 volatility) (jsqrt (Fin 24))))) seasonality)
                 eventImpact;
          d7 = jmul (jmul (jmul cur
                 (jadd (jadd (Fin 1) (jmul trend (Fin (7 / 365))))
                       (jmul (randomComponent u3 volatility) (jsqrt (Fin (7 * 24)))))) seasonality)
                 eventImpact;
          conf = jmax (Fin 0.4) (jsub (Fin 1) (jmul volatility (Fin 10)))
      in (h1, d1, d7, conf))"

definition determineFlowDirection :: "jsnum \<Rightarrow> jsnum \<Rightarrow> flow" where
  "determineFlowDirection predicted cur =
     (let change = jdiv (jsub predicted cur) cur
      in if jgt change (Fin 0.01) then Inflow
         else if jlt change (Fin (- 0.01)) then Outflow
         else Stable)"

text \<open>
  \<open>predictLiquidityFlow\<close>. The current TVL is that of the last point, or 0 when the history
  is empty or that value is falsy. The body of the \<open>try\<close> block does not throw for
  arguments of the declared types; the \<open>catch\<close> clause returns a record of random numbers
  drawn from \<open>rnd\<close>.
\<close>

definition predictLiquidityFlow_try ::
  "TVLPoint list \<Rightarrow> UpgradeEvent option \<Rightarrow> nat \<Rightarrow> nat \<Rightarrow> real \<Rightarrow> real \<Rightarrow> real
     \<Rightarrow> js_exception + LiquidityPrediction" where
  "predictLiquidityFlow_try historicalTVL upgradeEvent hourOfDay dayOfWeek u1 u2 u3 =
     (let cur = (if historicalTVL = [] then Fin 0 else jor (tvl (last historicalTVL)) (Fin 0));
          trendComponent = calculateTrend historicalTVL;
          seasonalComponent = calculateSeasonality hourOfDay dayOfWeek;
          volatilityComponent = calculateTVLVolatility historicalTVL;
          eventImpact = (case upgradeEvent of None \<Rightarrow> Fin 1
                         | Some e \<Rightarrow> calculateEventImpact e)
      in case generateTVLPredictions cur trendComponent seasonalComponent
                volatilityComponent eventImpact u1 u2 u3 of
           (h1, d1, d7, conf) \<Rightarrow>
             Inr \<lparr>currentTVL = cur, predictedTVL1h = h1, predictedTVL24h = d1,
                  predictedTVL7d = d7, flowDirection = determineFlowDirection h1 cur,
                  LiquidityPrediction.confidence = conf\<rparr>)"

definition mockLiquidityPrediction :: "(nat \<Rightarrow> real) \<Rightarrow> LiquidityPrediction" where
  "mockLiquidityPrediction rnd =
     (let cur = jmul (Fin (rnd 0)) (Fin 1000000000)
      in \<lparr>currentTVL = cur,
          predictedTVL1h =
            jmul cur (jadd (Fin 1) (jmul (jsub (Fin (rnd 1)) (Fin 0.5)) (Fin 0.02))),
          predictedTVL24h =
            jmul cur (jadd (Fin 1) (jmul (jsub (Fin (rnd 2)) (Fin 0.5)) (Fin 0.1))),
          predictedTVL7d =
            jmul cur (jadd (Fin 1) (jmul (jsub (Fin (rnd 3)) (Fin 0.5)) (Fin 0.3))),
          flowDirection = (if jgt (Fin (rnd 4)) (Fin 0.5) then Inflow else Outflow),
          LiquidityPrediction.confidence = jadd (jmul (Fin (rnd 5)) (Fin 0.3)) (Fin 0.7)\<rparr>)"

definition predictLiquidityFlow ::
  "TVLPoint list \<Rightarrow> UpgradeEvent option \<Rightarrow> nat \<Rightarrow> nat \<Rightarrow> real \<Rightarrow> real \<Rightarrow> real
     \<Rightarrow> (nat \<Rightarrow> real) \<Rightarrow> forecast_error + LiquidityPrediction" where
  "predictLiquidityFlow historicalTVL upgradeEvent hourOfDay dayOfWeek u1 u2 u3 rnd =
     (case predictLiquidityFlow_try historicalTVL upgradeEvent hourOfDay dayOfWeek u1 u2 u3 of
        Inr prediction \<Rightarrow> Inr prediction
      | Inl error \<Rightarrow> Inr (mockLiquidityPrediction rnd))"

section \<open>Reference definitions of the design document\<close>

text \<open>The invariant the data model states for fitted GARCH parameters.\<close>

definition garch_invariant :: "GarchParams \<Rightarrow> bool" where
  "garch_invariant p =
     (jle (Fin 0.01) (alpha p) \<and> jle (alpha p) (Fin 0.99) \<and>
      jle (Fin 0.01) (beta p) \<and> jle (beta p) (Fin 0.99) \<and>
      jge (omega p) (Fin 0.001) \<and> jlt (jadd (alpha p) (beta p)) (Fin 1))"

text \<open>The scoring rules of the decision engine as the design document lists them.\<close>

definition spec_score ::
  "RiskAssessment \<Rightarrow> VolatilityPrediction \<Rightarrow> LiquidityPrediction \<Rightarrow> MarketData \<Rightarrow> int" where
  "spec_score r v l m =
     (if jlt (overall r) (Fin 30) then 2 else 0)
     + (if jgt (overall r) (Fin 70) then - 2 else 0)
     + (if jgt (predicted24h v) (jmul (current v) (Fin 1.5)) then - 1 else 0)
     + (if flowDirection l = Inflow then 1 else 0)
     + (if flowDirection l = Outflow then - 1 else 0)
     + (if jgt (change24h m) (Fin 5) then 1 else 0)
     + (if jlt (change24h m) (Fin (- 5)) then - 1 else 0)"

definition spec_action ::
  "RiskAssessment \<Rightarrow> VolatilityPrediction \<Rightarrow> LiquidityPrediction \<Rightarrow> MarketData \<Rightarrow> action" where
  "spec_action r v l m =
     (if spec_score r v l m \<ge> 2 then Buy
      else if spec_score r v l m \<le> - 2 then Sell
      else if jgt (overall r) (Fin 60) \<or> jgt (predicted24h v) (Fin 0.5) then Hedge
      else Hold)"

text \<open>A fixed sequence of random draws, for evaluating the services on concrete inputs.\<close>

definition draws_half :: "nat \<Rightarrow> real" where
  "draws_half i = 1 / 2"

section \<open>Facts about the number model\<close>

lemmas jarith_defs =
  jsub_def jmul_def jdiv_def mk_fin_def signed_zero_def signed_inf_def is_zero_def

subsection \<open>NaN propagates\<close>

lemma jadd_NaN_right [simp]: "jadd a NaN = NaN"
  by (cases a) simp_all

lemma jsub_NaN [simp]: "jsub NaN b = NaN" "jsub a NaN = NaN"
  by (simp_all add: jsub_def)

lemma jmul_NaN [simp]: "jmul NaN b = NaN" "jmul a NaN = NaN"
  by (simp_all add: jmul_def)

lemma jdiv_NaN [simp]: "jdiv NaN b = NaN" "jdiv a NaN = NaN"
  by (simp_all add: jdiv_def)

lemma jmax_NaN [simp]: "jmax NaN b = NaN" "jmax a NaN = NaN"
  by (simp_all add: jmax_def)

lemma jmin_NaN [simp]: "jmin NaN b = NaN" "jmin a NaN = NaN"
  by (simp_all add: jmin_def)

lemma jpow_NaN [simp]: "0 < n \<Longrightarrow> jpow NaN n = NaN"
  by (simp add: jpow_def)

lemma jlt_NaN [simp]: "\<not> jlt NaN b" "\<not> jlt a NaN"
  by (simp_all add: jlt_def)

lemma jle_NaN [simp]: "\<not> jle NaN b" "\<not> jle a NaN"
  by (simp_all add: jle_def)

subsection \<open>Finite operands: the operations are those of the reals\<close>

lemma jneg_fin: "is_fin a \<Longrightarrow> is_fin (jneg a) \<and> nval (jneg a) = - nval a"
  by (cases a) simp_all

lemma jadd_fin:
  "is_fin a \<Longrightarrow> is_fin b \<Longrightarrow> is_fin (jadd a b) \<and> nval (jadd a b) = nval a + nval b"
  by (cases a; cases b) simp_all

lemma jsub_fin:
  "is_fin a \<Longrightarrow> is_fin b \<Longrightarrow> is_fin (jsub a b) \<and> nval (jsub a b) = nval a - nval b"
  by (cases a; cases b) (simp_all add: jsub_def)

lemma mk_fin_fin: "is_fin (mk_fin s x) \<and> nval (mk_fin s x) = x"
  by (simp add: mk_fin_def signed_zero_def)

lemma jmul_fin:
  "is_fin a \<Longrightarrow> is_fin b \<Longrightarrow> is_fin (jmul a b) \<and> nval (jmul a b) = nval a * nval b"
  by (cases a; cases b) (simp_all add: jmul_def mk_fin_fin)

lemma jdiv_fin:
  "is_fin a \<Longrightarrow> is_fin b \<Longrightarrow> nval b \<noteq> 0
     \<Longrightarrow> is_fin (jdiv a b) \<and> nval (jdiv a b) = nval a / nval b"
  by (cases a; cases b) (simp_all add: jdiv_def mk_fin_fin is_zero_def)

lemma jpow_fin: "is_fin a \<Longrightarrow> is_fin (jpow a n) \<and> nval (jpow a n) = nval a ^ n"
  by (cases a) (simp_all add: jpow_def)

lemma jsqrt_fin:
  "is_fin a \<Longrightarrow> 0 \<le> nval a \<Longrightarrow> is_fin (jsqrt a) \<and> nval (jsqrt a) = sqrt (nval a)"
  by (cases a) simp_all

lemma jlt_fin: "is_fin a \<Longrightarrow> is_fin b \<Longrightarrow> jlt a b = (nval a < nval b)"
  by (cases a; cases b) (simp_all add: jlt_def)

lemma jle_fin: "is_fin a \<Longrightarrow> is_fin b \<Longrightarrow> jle a b = (nval a \<le> nval b)"
  by (cases a; cases b) (auto simp add: jle_def jlt_def)

lemma jmax_fin:
  "is_fin a \<Longrightarrow> is_fin b \<Longrightarrow> is_fin (jmax a b) \<and> nval (jmax a b) = max (nval a) (nval b)"
  by (cases a; cases b) (auto simp add: jmax_def jlt_def)

lemma jmin_fin:
  "is_fin a \<Longrightarrow> is_fin b \<Longrightarrow> is_fin (jmin a b) \<and> nval (jmin a b) = min (nval a) (nval b)"
  by (cases a; cases b) (auto simp add: jmin_def jlt_def)

lemma range_fin: "jle (Fin lo) a \<Longrightarrow> jle a (Fin hi) \<Longrightarrow> is_fin a \<and> lo \<le> nval a \<and> nval a \<le> hi"
  by (cases a) (auto simp add: jle_def jlt_def)

subsection \<open>Evaluation on \<open>Fin\<close>\<close>

lemma jsub_Fin [simp]: "jsub (Fin x) (Fin y) = Fin (x - y)"
  by (simp add: jsub_def)

lemma jmul_Fin:
  "jmul (Fin x) (Fin y) =
     (if x * y = 0 then (if (x < 0) \<noteq> (y < 0) then NegZero else Fin 0) else Fin (x * y))"
  by (simp add: jmul_def mk_fin_def signed_zero_def)

lemma jlt_Fin [simp]: "jlt (Fin x) (Fin y) = (x < y)"
  by (simp add: jlt_def)

lemma jle_Fin [simp]: "jle (Fin x) (Fin y) = (x \<le> y)"
  by (auto simp add: jle_def)

lemma jmax_Fin [simp]: "jmax (Fin x) (Fin y) = Fin (max x y)"
  by (auto simp add: jmax_def)

lemma jmin_Fin [simp]: "jmin (Fin x) (Fin y) = Fin (min x y)"
  by (auto simp add: jmin_def)

lemma jpow_Fin [simp]: "jpow (Fin x) n = Fin (x ^ n)"
  by (simp add: jpow_def)

subsection \<open>Clamping\<close>

lemma clamp_range:
  assumes "lo \<le> hi"
  shows "jmax (Fin lo) (jmin (Fin hi) x) = NaN \<or>
         (jle (Fin lo) (jmax (Fin lo) (jmin (Fin hi) x)) \<and>
          jle (jmax (Fin lo) (jmin (Fin hi) x)) (Fin hi))"
  using assms by (cases x) (auto simp add: jmax_def jmin_def jlt_def jle_def)

lemma lower_range: "jmax (Fin lo) x = NaN \<or> jle (Fin lo) (jmax (Fin lo) x)"
  by (cases x) (auto simp add: jmax_def jlt_def jle_def)

lemma reduce_sum_zero: "(\<And>x. x \<in> set xs \<Longrightarrow> f x = Fin 0) \<Longrightarrow> reduce_sum f xs = Fin 0"
  unfolding reduce_sum_def by (induction xs rule: rev_induct) simp_all

section \<open>The GARCH fit\<close>

lemma fitLoop_last:
  "fitLoop (Suc k) rs p =
     (let q = fitLoop k rs p in optimizeGARCH rs (alpha q) (beta q) (omega q))"
  by (induction k arbitrary: p) (simp_all add: Let_def)

lemma fitLoop_fix: "optimizeGARCH rs (alpha p) (beta p) (omega p) = p \<Longrightarrow> fitLoop k rs p = p"
  by (induction k) simp_all

lemma optimize_NaN:
  "optimizeGARCH rs NaN NaN NaN = \<lparr>alpha = NaN, beta = NaN, omega = NaN\<rparr>"
  by (simp add: optimizeGARCH_def Let_def)

lemma fitLoop_NaN:
  "fitLoop k rs \<lparr>alpha = NaN, beta = NaN, omega = NaN\<rparr> = \<lparr>alpha = NaN, beta = NaN, omega = NaN\<rparr>"
  by (rule fitLoop_fix) (simp add: optimize_NaN)

subsection \<open>The return series \<open>[0, 30]\<close>: the persistence leaves the stable region\<close>

text \<open>
  The first step moves \<open>beta\<close> from 0.85 to the cap 0.99 while \<open>alpha\<close> stays at 0.1.
  From then on \<open>alpha = 0.1\<close>, \<open>beta = 0.99\<close> and \<open>omega > 0\<close> is preserved by every step:
  the long-run variance \<open>omega / (1 - 1.09)\<close> is negative, so is the path variance
  \<open>-10 * omega\<close>, the residual is positive, and the gradient pushes \<open>beta\<close> further up into
  its cap.
\<close>

lemma variance_ex: "calculateVariance [Fin 0, Fin 30] = Fin 450"
  by (simp add: calculateVariance_def reduce_sum_def Let_def jarith_defs)

lemma step_first:
  "optimizeGARCH [Fin 0, Fin 30] (Fin (1/10)) (Fin (17/20)) (Fin (45/2)) =
     \<lparr>alpha = Fin (1/10), beta = Fin (99/100), omega = Fin (405011 / 18000)\<rparr>"
  by (simp add: optimizeGARCH_def calculateGARCHGradient_def Let_def jarith_defs)

lemma step_inv:
  assumes "0 < w"
  shows "optimizeGARCH [Fin 0, Fin 30] (Fin (1/10)) (Fin (99/100)) (Fin w) =
     \<lparr>alpha = Fin (1/10), beta = Fin (99/100),
      omega = Fin (max (1/1000) (w - (900 + 10 * w) / (20000 * w)))\<rparr>"
  using assms
  by (simp add: optimizeGARCH_def calculateGARCHGradient_def Let_def jarith_defs)

lemma fitLoop_inv:
  "0 < w \<Longrightarrow>
   \<exists>w'>0. fitLoop k [Fin 0, Fin 30] \<lparr>alpha = Fin (1/10), beta = Fin (99/100), omega = Fin w\<rparr>
            = \<lparr>alpha = Fin (1/10), beta = Fin (99/100), omega = Fin w'\<rparr>"
proof (induction k arbitrary: w)
  case 0
  then show ?case by simp
next
  case (Suc k)
  let ?w = "max (1/1000) (w - (900 + 10 * w) / (20000 * w))"
  have "0 < ?w" by simp
  from Suc.IH [OF this] show ?case
    using Suc.prems by (simp add: step_inv)
qed

lemma fit_example:
  "\<exists>w>0. fitGARCH [Fin 0, Fin 30] = \<lparr>alpha = Fin (1/10), beta = Fin (99/100), omega = Fin w\<rparr>"
proof -
  have n: "(100::nat) = Suc 99" by simp
  have w0: "jmul (Fin 450) (jsub (jsub (Fin 1) (Fin 0.1)) (Fin 0.85)) = Fin (45/2)"
    by (simp add: jmul_Fin)
  have "fitGARCH [Fin 0, Fin 30] =
        fitLoop 99 [Fin 0, Fin 30]
          \<lparr>alpha = Fin (1/10), beta = Fin (99/100), omega = Fin (405011 / 18000)\<rparr>"
    unfolding fitGARCH_def Let_def variance_ex w0 n fitLoop.simps
    by (simp add: step_first)
  moreover have "(0::real) < 405011 / 18000" by simp
  ultimately show ?thesis
    using fitLoop_inv [of "405011 / 18000" 99] by simp
qed

subsection \<open>A single return: the sample variance is \<open>0/0\<close>\<close>

lemma variance_single: "calculateVariance [Fin x] = NaN"
  by (simp add: calculateVariance_def reduce_sum_def Let_def jarith_defs)

lemma optimize_single:
  "optimizeGARCH [Fin x] (Fin (1/10)) (Fin (17/20)) NaN =
     \<lparr>alpha = Fin (1/10), beta = Fin (17/20), omega = NaN\<rparr>"
  by (simp add: optimizeGARCH_def calculateGARCHGradient_def Let_def jarith_defs)

lemma fit_single: "fitGARCH [Fin x] = \<lparr>alpha = Fin (1/10), beta = Fin (17/20), omega = NaN\<rparr>"
  unfolding fitGARCH_def Let_def variance_single
  by (simp add: fitLoop_fix optimize_single)

lemma current_single: "calculateCurrentVolatility [Fin x] = NaN"
  by (simp add: calculateCurrentVolatility_def Let_def variance_single)

subsection \<open>No return at all\<close>

lemma returns_short: "length ps < 2 \<Longrightarrow> calculateReturns ps = []"
  by (cases ps rule: calculateReturns.cases) simp_all

lemma variance_empty: "calculateVariance [] = NegZero"
  by (simp add: calculateVariance_def reduce_sum_def Let_def jarith_defs)

lemma optimize_empty: "optimizeGARCH [] a b w = \<lparr>alpha = NaN, beta = NaN, omega = NaN\<rparr>"
  by (simp add: optimizeGARCH_def calculateGARCHGradient_def Let_def jarith_defs)

lemma fit_empty: "fitGARCH [] = \<lparr>alpha = NaN, beta = NaN, omega = NaN\<rparr>"
proof -
  have n: "(100::nat) = Suc 99" by simp
  show ?thesis
    unfolding fitGARCH_def Let_def n fitLoop.simps optimize_empty fitLoop_NaN ..
qed

lemma current_empty: "calculateCurrentVolatility [] = NegZero"
  by (simp add: calculateCurrentVolatility_def variance_empty)

lemma predictions_NaN:
  "generateVolatilityPredictions c \<lparr>alpha = NaN, beta = NaN, omega = NaN\<rparr> ev
     = (NaN, NaN, NaN, NaN)"
  by (simp add: generateVolatilityPredictions_def Let_def)

subsection \<open>A flat price series\<close>

lemma returns_flat:
  "0 < p \<Longrightarrow> calculateReturns (replicate (Suc n) (Fin p)) = replicate n (Fin 0)"
  by (induction n) (simp_all add: jarith_defs)

lemma variance_zeros: "calculateVariance (replicate (Suc (Suc n)) (Fin 0)) = Fin 0"
proof -
  let ?xs = "replicate (Suc (Suc n)) (Fin 0)"
  have s: "reduce_sum (\<lambda>v. v) ?xs = Fin 0"
    by (rule reduce_sum_zero) auto
  have m: "jdiv (Fin 0) (Fin (real (length ?xs))) = Fin 0"
    by (simp add: jarith_defs)
  have s2: "reduce_sum (\<lambda>v. jpow (jsub v (Fin 0)) 2) ?xs = Fin 0"
    by (rule reduce_sum_zero) auto
  show ?thesis
    unfolding calculateVariance_def Let_def s m s2
    by (simp add: jarith_defs)
qed

lemma ewma_zeros:
  "foldl (\<lambda>variance r. jadd (jmul (Fin 0.94) variance) (jmul (jsub (Fin 1) (Fin 0.94)) (jpow r 2)))
     (Fin 0) (replicate k (Fin 0)) = Fin 0"
  by (induction k) (simp_all add: jarith_defs)

lemma current_zeros: "calculateCurrentVolatility (replicate (Suc (Suc n)) (Fin 0)) = Fin 0"
  unfolding calculateCurrentVolatility_def Let_def variance_zeros drop_replicate ewma_zeros
  by simp

lemma gradientLoop_NaN: "\<exists>v'. gradientLoop a b w rs (v, NaN, NaN, NaN) = (v', NaN, NaN, NaN)"
proof (induction rs arbitrary: v)
  case Nil
  then show ?case by simp
next
  case (Cons r rs)
  show ?case
  proof (cases rs)
    case Nil
    then show ?thesis by simp
  next
    case (Cons r' rs')
    then show ?thesis using Cons.IH by (simp add: Let_def)
  qed
qed

lemma optimize_zeros:
  "optimizeGARCH (replicate (Suc (Suc n)) (Fin 0)) (Fin (1/10)) (Fin (17/20)) (Fin 0)
     = \<lparr>alpha = NaN, beta = NaN, omega = NaN\<rparr>"
proof -
  let ?rs = "replicate (Suc (Suc n)) (Fin 0)"
  have "gradientLoop (Fin (1/10)) (Fin (17/20)) (Fin 0) ?rs (Fin 0, Fin 0, Fin 0, Fin 0)
      = gradientLoop (Fin (1/10)) (Fin (17/20)) (Fin 0) (replicate (Suc n) (Fin 0))
          (Fin 0, NaN, NaN, NaN)"
    by (simp add: Let_def jarith_defs)
  then obtain v' where
    "gradientLoop (Fin (1/10)) (Fin (17/20)) (Fin 0) ?rs (Fin 0, Fin 0, Fin 0, Fin 0)
      = (v', NaN, NaN, NaN)"
    using gradientLoop_NaN by metis
  moreover have "jdiv (Fin 0) (jsub (jsub (Fin 1) (Fin (1/10))) (Fin (17/20))) = Fin 0"
    by (simp add: jarith_defs)
  ultimately show ?thesis
    unfolding optimizeGARCH_def calculateGARCHGradient_def Let_def
    by simp
qed

lemma fit_zeros:
  "fitGARCH (replicate (Suc (Suc n)) (Fin 0)) = \<lparr>alpha = NaN, beta = NaN, omega = NaN\<rparr>"
proof -
  let ?rs = "replicate (Suc (Suc n)) (Fin 0)"
  have k: "(100::nat) = Suc 99" by simp
  have w0: "jmul (Fin 0) (jsub (jsub (Fin 1) (Fin 0.1)) (Fin 0.85)) = Fin 0"
    by (simp add: jarith_defs)
  have "fitGARCH ?rs = fitLoop 100 ?rs \<lparr>alpha = Fin (1/10), beta = Fin (17/20), omega = Fin 0\<rparr>"
    unfolding fitGARCH_def Let_def variance_zeros w0 by simp
  also have "\<dots> = \<lparr>alpha = NaN, beta = NaN, omega = NaN\<rparr>"
    unfolding k fitLoop.simps by (simp add: optimize_zeros fitLoop_NaN del: replicate.simps)
  finally show ?thesis .
qed

lemma predict_flat:
  assumes "0 < p"
  shows "predictVolatility (replicate (Suc (Suc (Suc m))) (Fin p)) ev rnd =
    Inr \<lparr>current = Fin 0, predicted1h = NaN, predicted24h = NaN, predicted7d = NaN,
         VolatilityPrediction.confidence = NaN,
         garchParams = \<lparr>alpha = NaN, beta = NaN, omega = NaN\<rparr>\<rparr>"
proof -
  have "calculateReturns (replicate (Suc (Suc (Suc m))) (Fin p)) = replicate (Suc (Suc m)) (Fin 0)"
    using returns_flat [OF assms] by blast
  then show ?thesis
    unfolding predictVolatility_def predictVolatility_try_def Let_def
    by (simp add: fit_zeros current_zeros predictions_NaN del: replicate.simps)
qed

subsection \<open>The forecast formulas at current volatility 0\<close>

text \<open>
  With the seed parameters and \<open>omega = 0.001\<close> the 1h forecast at current volatility 0 is
  \<open>sqrt omega\<close> times the event multiplier; the 7d forecast is
  \<open>sqrt (0.02 * (1 - 0.95 ^ 168))\<close>, which is a different number.
\<close>

lemma persistence_power: "(19/20 :: real) ^ 168 < 19/20"
proof -
  have "(19/20 :: real) ^ 168 < (19/20) ^ 1"
    by (rule power_strict_decreasing) simp_all
  then show ?thesis
    by simp
qed

lemma forecasts_at_zero_volatility:
  "fst (generateVolatilityPredictions (Fin 0)
          \<lparr>alpha = Fin (1/10), beta = Fin (17/20), omega = Fin (1/1000)\<rparr> None)
     = jmul (jsqrt (Fin (1/1000))) (eventMultiplier None) \<and>
   fst (snd (snd (generateVolatilityPredictions (Fin 0)
          \<lparr>alpha = Fin (1/10), beta = Fin (17/20), omega = Fin (1/1000)\<rparr> None)))
     \<noteq> jmul (jsqrt (Fin (1/1000))) (eventMultiplier None)"
proof -
  define q :: real where "q = (19/20) ^ 168"
  have q: "0 < q" "q < 19/20"
    unfolding q_def using persistence_power by simp_all
  have a: "jadd (Fin (1/10)) (Fin (17/20)) = Fin (19/20)"
    by simp
  have p: "jpow (Fin (19/20)) (7 * 24) = Fin q"
    by (simp add: q_def)
  have "1/50 - q / 50 \<noteq> 1/1000"
    using q by auto
  then have ne: "sqrt (1/50 - q / 50) \<noteq> sqrt (1/1000)"
    by (simp only: real_sqrt_eq_iff not_False_eq_True)
  have m: "eventMultiplier None = Fin 1"
    by (simp add: eventMultiplier_def)
  show ?thesis
    unfolding generateVolatilityPredictions_def Let_def
    apply (simp only: GarchParams.simps a p m fst_conv snd_conv)
    using q ne
    apply (simp add: jarith_defs real_sqrt_mult)
    done
qed

section \<open>The decision engine\<close>

lemmas is_fin_simps =
  jneg_fin [THEN conjunct1] jadd_fin [THEN conjunct1] jsub_fin [THEN conjunct1]
  jmul_fin [THEN conjunct1] jdiv_fin [THEN conjunct1] jpow_fin [THEN conjunct1]
  jsqrt_fin [THEN conjunct1] jmax_fin [THEN conjunct1] jmin_fin [THEN conjunct1]

lemmas nval_simps =
  jneg_fin [THEN conjunct2] jadd_fin [THEN conjunct2] jsub_fin [THEN conjunct2]
  jmul_fin [THEN conjunct2] jdiv_fin [THEN conjunct2] jpow_fin [THEN conjunct2]
  jsqrt_fin [THEN conjunct2] jmax_fin [THEN conjunct2] jmin_fin [THEN conjunct2]

lemma jlt_exclusive: "jlt a (Fin x) \<Longrightarrow> x \<le> y \<Longrightarrow> \<not> jlt (Fin y) a"
  by (cases a) (simp_all add: jlt_def)

lemma risk_consistency_value:
  assumes "is_fin (technical r)" "is_fin (governance r)" "is_fin (market r)"
    "is_fin (liquidity r)"
  shows "is_fin (calculateRiskConsistency r) \<and>
         3/10 \<le> nval (calculateRiskConsistency r) \<and> nval (calculateRiskConsistency r) \<le> 1"
proof -
  let ?risks = "[technical r, governance r, market r, liquidity r]"
  define mean where
    "mean = jdiv (reduce_sum (\<lambda>risk. risk) ?risks) (Fin (real (length ?risks)))"
  have mean: "is_fin mean"
    unfolding mean_def reduce_sum_def using assms by (simp add: is_fin_simps)
  define var where
    "var = jdiv (reduce_sum (\<lambda>risk. jpow (jsub risk mean) 2) ?risks)
                (Fin (real (length ?risks)))"
  have var: "is_fin var \<and> 0 \<le> nval var"
    unfolding var_def reduce_sum_def using assms mean by (simp add: is_fin_simps nval_simps)
  have "calculateRiskConsistency r = jmax (Fin 0.3) (jsub (Fin 1) (jdiv (jsqrt var) (Fin 50)))"
    unfolding calculateRiskConsistency_def Let_def var_def mean_def ..
  then show ?thesis
    using var by (simp add: is_fin_simps nval_simps)
qed

subsection \<open>Rebalancing\<close>

lemma rebalancing_unfold:
  "generateRebalancingRecommendations r m u =
    (let overallRisk = jdiv (overall r) (Fin 100);
         eth = Fin 0.4; btc = Fin 0.3;
         usdc = adjustedWeight r overallRisk ''USDC'' (Fin 0.2);
         tok = adjustedWeight r overallRisk ''PROTOCOL_TOKEN'' (Fin 0.1);
         total = jadd (jadd (jadd (jadd (Fin 0) eth) btc) usdc) tok
     in [\<lparr>asset = ''ETH'', currentWeight = Fin 0.4, recommendedWeight = jdiv eth total\<rparr>,
         \<lparr>asset = ''BTC'', currentWeight = Fin 0.3, recommendedWeight = jdiv btc total\<rparr>,
         \<lparr>asset = ''USDC'', currentWeight = Fin 0.2, recommendedWeight = jdiv usdc total\<rparr>,
         \<lparr>asset = ''PROTOCOL_TOKEN'', currentWeight = Fin 0.1,
          recommendedWeight = jdiv tok total\<rparr>])"
  by (simp add: generateRebalancingRecommendations_def Let_def reduce_sum_def adjustedWeight_def)

lemma usdc_weight:
  assumes "jle (Fin 0) (overall r)" "jle (overall r) (Fin 100)"
  shows "is_fin (adjustedWeight r (jdiv (overall r) (Fin 100)) ''USDC'' (Fin 0.2)) \<and>
         1/5 \<le> nval (adjustedWeight r (jdiv (overall r) (Fin 100)) ''USDC'' (Fin 0.2)) \<and>
         nval (adjustedWeight r (jdiv (overall r) (Fin 100)) ''USDC'' (Fin 0.2)) \<le> 1/2"
proof -
  have f: "is_fin (overall r)" "0 \<le> nval (overall r)"
    using range_fin [OF assms] by auto
  show ?thesis
    using f by (auto simp add: adjustedWeight_def is_fin_simps nval_simps min_def)
qed

lemma token_weight:
  "adjustedWeight r x ''PROTOCOL_TOKEN'' (Fin 0.1) = Fin (1/10) \<or>
   adjustedWeight r x ''PROTOCOL_TOKEN'' (Fin 0.1) = Fin (1/20)"
  by (simp add: adjustedWeight_def jmul_Fin)

text \<open>
  With the overall risk in \<open>[0, 100]\<close> the total weight before normalisation is finite and
  positive, and every recommended weight is its adjusted weight divided by that total.
\<close>

lemma rebalancing_normalised:
  assumes "jle (Fin 0) (overall r)" "jle (overall r) (Fin 100)"
  shows "\<exists>usdc tok total.
           is_fin usdc \<and> is_fin tok \<and> is_fin total \<and> 0 < nval total \<and>
           nval total = 7/10 + nval usdc + nval tok \<and>
           map recommendedWeight (generateRebalancingRecommendations r m u) =
             [jdiv (Fin 0.4) total, jdiv (Fin 0.3) total, jdiv usdc total, jdiv tok total]"
proof -
  define usdc where "usdc = adjustedWeight r (jdiv (overall r) (Fin 100)) ''USDC'' (Fin 0.2)"
  define tok where
    "tok = adjustedWeight r (jdiv (overall r) (Fin 100)) ''PROTOCOL_TOKEN'' (Fin 0.1)"
  define total where "total = jadd (jadd (jadd (jadd (Fin 0) (Fin 0.4)) (Fin 0.3)) usdc) tok"
  have u: "is_fin usdc" "1/5 \<le> nval usdc"
    using usdc_weight [OF assms] by (simp_all add: usdc_def)
  have t: "is_fin tok" "0 < nval tok"
    using token_weight [of r "jdiv (overall r) (Fin 100)"] by (auto simp add: tok_def)
  have tot: "is_fin total" "nval total = 7/10 + nval usdc + nval tok"
    unfolding total_def using u t by (simp_all add: is_fin_simps nval_simps)
  have pos: "0 < nval total"
    using tot u t by simp
  have recs: "map recommendedWeight (generateRebalancingRecommendations r m u) =
    [jdiv (Fin 0.4) total, jdiv (Fin 0.3) total, jdiv usdc total, jdiv tok total]"
    by (simp add: rebalancing_unfold Let_def usdc_def tok_def total_def)
  have "is_fin usdc \<and> is_fin tok \<and> is_fin total \<and> 0 < nval total \<and>
        nval total = 7/10 + nval usdc + nval tok \<and>
        map recommendedWeight (generateRebalancingRecommendations r m u) =
          [jdiv (Fin 0.4) total, jdiv (Fin 0.3) total, jdiv usdc total, jdiv tok total]"
    using u(1) t(1) tot pos recs by (intro conjI)
  then show ?thesis
    by (intro exI)
qed

subsection \<open>Flow direction\<close>

lemma flow_cases:
  assumes "is_fin change" "nval change = x"
  shows "((if jgt change (Fin 0.01) then Inflow
           else if jlt change (Fin (- 0.01)) then Outflow else Stable) = Inflow
            \<longleftrightarrow> 1/100 < x) \<and>
         ((if jgt change (Fin 0.01) then Inflow
           else if jlt change (Fin (- 0.01)) then Outflow else Stable) = Outflow
            \<longleftrightarrow> x < - (1/100)) \<and>
         ((if jgt change (Fin 0.01) then Inflow
           else if jlt change (Fin (- 0.01)) then Outflow else Stable) = Stable
            \<longleftrightarrow> - (1/100) \<le> x \<and> x \<le> 1/100)"
  using assms by (auto simp add: jgt_def jlt_fin)

subsection \<open>A zero current TVL\<close>

lemma zero_mul_fin: "is_zero a \<Longrightarrow> is_fin b \<Longrightarrow> is_zero (jmul a b)"
  by (cases b) (auto simp add: is_zero_def jmul_def mk_fin_def signed_zero_def)

lemma zero_mul_any: "is_zero a \<Longrightarrow> is_zero (jmul a b) \<or> jmul a b = NaN"
  by (cases b) (auto simp add: is_zero_def jmul_def mk_fin_def signed_zero_def)

lemma zero_change: "is_zero a \<or> a = NaN \<Longrightarrow> jdiv (jsub a (Fin 0)) (Fin 0) = NaN"
  by (auto simp add: is_zero_def jdiv_def jsub_def)

lemma zero_jeq: "is_zero a \<Longrightarrow> jeq a (Fin 0)"
  by (auto simp add: is_zero_def jeq_def)

lemma seasonality_fin: "is_fin (calculateSeasonality h d)"
  by (simp add: calculateSeasonality_def Let_def jmul_Fin)

lemma eventImpact_fin:
  assumes "is_fin (riskScore e)"
    and "eventType e = ''governance'' \<or> eventType e = ''implementation'' \<or>
         eventType e = ''parameter''"
  shows "is_fin (calculateEventImpact e)"
  using assms by (auto simp add: calculateEventImpact_def Let_def is_fin_simps)

lemma eventImpact_inherited:
  "eventType e \<in> set objectPrototypeKeys \<Longrightarrow> calculateEventImpact e = NaN"
  by (auto simp add: calculateEventImpact_def Let_def objectPrototypeKeys_def)

lemma randomComponent_fin: "is_fin v \<Longrightarrow> is_fin (randomComponent u v)"
  by (simp add: randomComponent_def is_fin_simps)

lemma predictions_zero:
  assumes "is_fin trend" "is_fin seas" "is_fin vol"
  shows "\<exists>h1 d1 d7 c.
           generateTVLPredictions (Fin 0) trend seas vol ei u1 u2 u3 = (h1, d1, d7, c) \<and>
           (is_zero h1 \<or> h1 = NaN) \<and>
           (is_fin ei \<longrightarrow> is_zero h1 \<and> is_zero d1 \<and> is_zero d7)"
proof -
  define x1 where
    "x1 = jadd (jadd (Fin 1) (jmul trend (Fin (1 / 24 / 365)))) (randomComponent u1 vol)"
  define x2 where
    "x2 = jadd (jadd (Fin 1) (jmul trend (Fin (1 / 365))))
            (jmul (randomComponent u2 vol) (jsqrt (Fin 24)))"
  define x3 where
    "x3 = jadd (jadd (Fin 1) (jmul trend (Fin (7 / 365))))
            (jmul (randomComponent u3 vol) (jsqrt (Fin (7 * 24))))"
  have z: "is_zero (Fin 0)"
    by (simp add: is_zero_def)
  have x: "is_fin x1" "is_fin x2" "is_fin x3"
    unfolding x1_def x2_def x3_def using assms
    by (simp_all add: is_fin_simps randomComponent_fin)
  have y: "is_zero (jmul (jmul (Fin 0) x1) seas)" "is_zero (jmul (jmul (Fin 0) x2) seas)"
    "is_zero (jmul (jmul (Fin 0) x3) seas)"
    using z x assms(2) by (simp_all add: zero_mul_fin)
  have g: "generateTVLPredictions (Fin 0) trend seas vol ei u1 u2 u3 =
      (jmul (jmul (jmul (Fin 0) x1) seas) ei, jmul (jmul (jmul (Fin 0) x2) seas) ei,
       jmul (jmul (jmul (Fin 0) x3) seas) ei,
       jmax (Fin 0.4) (jsub (Fin 1) (jmul vol (Fin 10))))"
    unfolding generateTVLPredictions_def Let_def x1_def x2_def x3_def ..
  have f: "is_zero (jmul (jmul (jmul (Fin 0) x1) seas) ei)"
    "is_zero (jmul (jmul (jmul (Fin 0) x2) seas) ei)"
    "is_zero (jmul (jmul (jmul (Fin 0) x3) seas) ei)" if "is_fin ei"
    using y that by (simp_all add: zero_mul_fin)
  show ?thesis
    unfolding g using f zero_mul_any [OF y(1), of ei] by simp
qed

section \<open>Claims about the volatility model\<close>

text \<open>
  Claim C1, as stated: for every return series the fitted parameters satisfy
  \<open>0.01 \<le> alpha \<le> 0.99\<close>, \<open>0.01 \<le> beta \<le> 0.99\<close>, \<open>omega \<ge> 0.001\<close> and
  \<open>alpha + beta < 1\<close>. This fails: on the returns \<open>[0, 30]\<close> the fit ends with
  \<open>alpha + beta = 1.09\<close>, and on a series of one return \<open>omega\<close> is NaN.
\<close>

theorem fitGARCH_invariant_counterexample:
  "\<not> garch_invariant (fitGARCH [Fin 0, Fin 30]) \<and>
   jadd (alpha (fitGARCH [Fin 0, Fin 30])) (beta (fitGARCH [Fin 0, Fin 30])) = Fin 1.09 \<and>
   \<not> garch_invariant (fitGARCH [Fin 0.05]) \<and>
   omega (fitGARCH [Fin 0.05]) = NaN"
proof -
  obtain w where
    "fitGARCH [Fin 0, Fin 30] = \<lparr>alpha = Fin (1/10), beta = Fin (99/100), omega = Fin w\<rparr>"
    using fit_example by blast
  then show ?thesis
    by (simp add: garch_invariant_def fit_single jge_def)
qed

text \<open>
  Claim C1, amended: for every return series, each parameter the fit returns after its 100
  steps is NaN or inside its clamp: \<open>alpha\<close> and \<open>beta\<close> in \<open>[0.01, 0.99]\<close>,
  \<open>omega \<ge> 0.001\<close>. Nothing bounds \<open>alpha + beta\<close> below 1.
\<close>

theorem fitGARCH_clamped:
  "(alpha (fitGARCH rs) = NaN \<or>
      (jle (Fin 0.01) (alpha (fitGARCH rs)) \<and> jle (alpha (fitGARCH rs)) (Fin 0.99))) \<and>
   (beta (fitGARCH rs) = NaN \<or>
      (jle (Fin 0.01) (beta (fitGARCH rs)) \<and> jle (beta (fitGARCH rs)) (Fin 0.99))) \<and>
   (omega (fitGARCH rs) = NaN \<or> jge (omega (fitGARCH rs)) (Fin 0.001))"
proof -
  have n: "(100::nat) = Suc 99" by simp
  obtain a b w where "fitGARCH rs = optimizeGARCH rs a b w"
    unfolding fitGARCH_def Let_def n fitLoop_last by blast
  then show ?thesis
    using clamp_range [of "1/100" "99/100"] lower_range [of "1/1000"]
    by (simp add: optimizeGARCH_def Let_def jge_def)
qed

text \<open>On the returns \<open>[0, 30]\<close> no parameter is NaN and the three clamps hold.\<close>

theorem fitGARCH_clamped_witness:
  "jle (Fin 0.01) (alpha (fitGARCH [Fin 0, Fin 30])) \<and>
   jle (alpha (fitGARCH [Fin 0, Fin 30])) (Fin 0.99) \<and>
   jle (Fin 0.01) (beta (fitGARCH [Fin 0, Fin 30])) \<and>
   jle (beta (fitGARCH [Fin 0, Fin 30])) (Fin 0.99) \<and>
   jge (omega (fitGARCH [Fin 0, Fin 30])) (Fin 0.001)"
proof -
  obtain w where
    "fitGARCH [Fin 0, Fin 30] = \<lparr>alpha = Fin (1/10), beta = Fin (99/100), omega = Fin w\<rparr>"
    using fit_example by blast
  then show ?thesis
    using fitGARCH_clamped [of "[Fin 0, Fin 30]"] by simp
qed

text \<open>
  Claim C2, as stated: for a price history of fewer than 2 points \<open>predictVolatility\<close>
  fails with \<open>InsufficientDataError\<close>. It does not: for the empty history and for a
  history of one price the call returns a record.
\<close>

theorem predictVolatility_no_InsufficientDataError:
  "predictVolatility [] None draws_half \<noteq> Inl InsufficientDataError \<and>
   predictVolatility [Fin 100] None draws_half \<noteq> Inl InsufficientDataError \<and>
   \<not> isl (predictVolatility [Fin 100] None draws_half)"
  by (simp add: predictVolatility_def predictVolatility_try_def Let_def split: prod.splits)

text \<open>
  Claim C2, amended: for every price history of fewer than 2 points \<open>predictVolatility\<close>
  does not fail and its result does not depend on the random draws; it returns the record
  whose current volatility is \<open>-0\<close> and whose forecasts, confidence and GARCH parameters
  are all NaN.
\<close>

theorem predictVolatility_short_history:
  assumes "length ps < 2"
  shows "predictVolatility ps ev rnd =
    Inr \<lparr>current = NegZero, predicted1h = NaN, predicted24h = NaN, predicted7d = NaN,
         VolatilityPrediction.confidence = NaN,
         garchParams = \<lparr>alpha = NaN, beta = NaN, omega = NaN\<rparr>\<rparr>"
  by (simp add: predictVolatility_def predictVolatility_try_def returns_short [OF assms]
      fit_empty current_empty predictions_NaN)

theorem predictVolatility_short_history_witness:
  "length [Fin 100] < 2 \<and>
   predictVolatility [Fin 100] None draws_half =
    Inr \<lparr>current = NegZero, predicted1h = NaN, predicted24h = NaN, predicted7d = NaN,
         VolatilityPrediction.confidence = NaN,
         garchParams = \<lparr>alpha = NaN, beta = NaN, omega = NaN\<rparr>\<rparr>"
  using predictVolatility_short_history [of "[Fin 100]" None draws_half] by simp

text \<open>
  Claim C3, as stated: when the fitted parameters have \<open>alpha + beta \<ge> 1\<close>,
  \<open>predictVolatility\<close> fails with \<open>ModelInstabilityError\<close>. It does not: the prices
  \<open>[1, 1, exp 30]\<close> have the returns \<open>[0, 30]\<close>, the fit ends with \<open>alpha + beta = 1.09\<close>,
  and the call returns a record carrying these parameters.
\<close>

theorem predictVolatility_unstable_fit_returned:
  "\<not> isl (predictVolatility [Fin 1, Fin 1, Fin (exp 30)] None draws_half) \<and>
   predictVolatility [Fin 1, Fin 1, Fin (exp 30)] None draws_half
     \<noteq> Inl ModelInstabilityError \<and>
   jge (jadd
         (alpha (garchParams
            (projr (predictVolatility [Fin 1, Fin 1, Fin (exp 30)] None draws_half))))
         (beta (garchParams
            (projr (predictVolatility [Fin 1, Fin 1, Fin (exp 30)] None draws_half)))))
       (Fin 1)"
proof -
  obtain w where
    "fitGARCH [Fin 0, Fin 30] = \<lparr>alpha = Fin (1/10), beta = Fin (99/100), omega = Fin w\<rparr>"
    using fit_example by blast
  then show ?thesis
    by (simp add: predictVolatility_def predictVolatility_try_def Let_def jarith_defs jge_def
        split: prod.splits)
qed

text \<open>
  Claim C3, amended: \<open>predictVolatility\<close> has no stability guard. On every input, also one
  whose fitted parameters have \<open>alpha + beta \<ge> 1\<close>, it returns a record, and the record
  carries the parameters of the fit unchanged.
\<close>

theorem predictVolatility_returns_fit:
  "\<not> isl (predictVolatility ps ev rnd) \<and>
   garchParams (projr (predictVolatility ps ev rnd)) = fitGARCH (calculateReturns ps)"
  by (simp add: predictVolatility_def predictVolatility_try_def Let_def split: prod.splits)

theorem predictVolatility_returns_fit_witness:
  "\<not> isl (predictVolatility [Fin 1, Fin 1, Fin (exp 30)] None draws_half) \<and>
   garchParams (projr (predictVolatility [Fin 1, Fin 1, Fin (exp 30)] None draws_half))
     = fitGARCH [Fin 0, Fin 30]"
  using predictVolatility_returns_fit [of "[Fin 1, Fin 1, Fin (exp 30)]" None draws_half]
  by (simp add: jarith_defs)

text \<open>
  Claim C6, as stated: for every flat positive price series of length at least 2 the
  current volatility is 0 and each forecast equals \<open>sqrt omega\<close> times the event
  multiplier. This fails: for the two prices \<open>[100, 100]\<close> the current volatility is NaN,
  and for \<open>[100, 100, 100]\<close> the 1h forecast is NaN, which equals nothing under \<open>===\<close>.
\<close>

theorem predictVolatility_flat_counterexample:
  "\<not> isl (predictVolatility [Fin 100, Fin 100] None draws_half) \<and>
   current (projr (predictVolatility [Fin 100, Fin 100] None draws_half)) = NaN \<and>
   \<not> jeq (current (projr (predictVolatility [Fin 100, Fin 100] None draws_half))) (Fin 0) \<and>
   \<not> jeq (predicted1h (projr (predictVolatility [Fin 100, Fin 100, Fin 100] None draws_half)))
          (jmul (jsqrt (omega (garchParams
                   (projr (predictVolatility [Fin 100, Fin 100, Fin 100] None draws_half)))))
                (eventMultiplier None))"
proof -
  have "predicted1h (projr
          (predictVolatility (replicate (Suc (Suc (Suc 0))) (Fin 100)) None draws_half)) = NaN"
    by (subst predict_flat) simp_all
  then have
    "predicted1h (projr (predictVolatility [Fin 100, Fin 100, Fin 100] None draws_half)) = NaN"
    by simp
  then show ?thesis
    by (simp add: predictVolatility_def predictVolatility_try_def Let_def jarith_defs
        current_single jeq_def split: prod.splits)
qed

text \<open>
  Claim C6, amended: for every flat positive price series of length at least 3,
  \<open>predictVolatility\<close> returns current volatility 0, and the fitted parameters, the three
  forecasts and the confidence are all NaN (the first gradient step divides 0 by 0).
\<close>

theorem predictVolatility_flat_series:
  assumes "0 < p" and "3 \<le> n"
  shows "predictVolatility (replicate n (Fin p)) ev rnd =
    Inr \<lparr>current = Fin 0, predicted1h = NaN, predicted24h = NaN, predicted7d = NaN,
         VolatilityPrediction.confidence = NaN,
         garchParams = \<lparr>alpha = NaN, beta = NaN, omega = NaN\<rparr>\<rparr>"
proof -
  from \<open>3 \<le> n\<close> obtain m where n: "n = Suc (Suc (Suc m))"
    by (metis Suc_le_D numeral_3_eq_3 Suc_le_mono)
  show ?thesis
    unfolding n by (rule predict_flat [OF \<open>0 < p\<close>])
qed

theorem predictVolatility_flat_series_witness:
  "(0::real) < 100 \<and> (3::nat) \<le> 3 \<and>
   predictVolatility [Fin 100, Fin 100, Fin 100] None draws_half =
    Inr \<lparr>current = Fin 0, predicted1h = NaN, predicted24h = NaN, predicted7d = NaN,
         VolatilityPrediction.confidence = NaN,
         garchParams = \<lparr>alpha = NaN, beta = NaN, omega = NaN\<rparr>\<rparr>"
  using predictVolatility_flat_series [of 100 3 None draws_half]
  by (simp add: numeral_3_eq_3)

section \<open>Claims about the decision engine\<close>

text \<open>
  Claim C4: the action is a function of the risk assessment, the two predictions and the
  market data alone, and it is the action of the reference scoring rules: the action and
  the mitigation list of the guidance do not change with the user profile or the clock.
  With overall risk 20, predicted 24h volatility and current volatility 0.2, an inflow
  and a 24h change of 6 the action is buy.
\<close>

theorem determineOptimalAction_matches_scoring:
  "determineOptimalAction r v l m = spec_action r v l m \<and>
   action (projr (generateExecutionGuidance r v l m u now)) = spec_action r v l m \<and>
   action (projr (generateExecutionGuidance r v l m u now)) =
     action (projr (generateExecutionGuidance r v l m u' now')) \<and>
   riskMitigation (projr (generateExecutionGuidance r v l m u now)) =
     riskMitigation (projr (generateExecutionGuidance r v l m u' now')) \<and>
   (overall r = Fin 20 \<and> predicted24h v = Fin 0.2 \<and> current v = Fin 0.2 \<and>
    flowDirection l = Inflow \<and> change24h m = Fin 6 \<longrightarrow> determineOptimalAction r v l m = Buy)"
proof -
  have x1: "jlt (overall r) (Fin 30) \<Longrightarrow> \<not> jgt (overall r) (Fin 70)"
    unfolding jgt_def using jlt_exclusive [of "overall r" 30 70] by auto
  have x2: "jgt (change24h m) (Fin 5) \<Longrightarrow> \<not> jlt (change24h m) (Fin (- 5))"
    unfolding jgt_def using jlt_exclusive [of "change24h m" "- 5" 5] by auto
  have eq: "determineOptimalAction r v l m = spec_action r v l m"
    using x1 x2
    by (auto simp add: determineOptimalAction_def spec_action_def spec_score_def Let_def)
  have ex: "determineOptimalAction r v l m = Buy"
    if "overall r = Fin 20" "predicted24h v = Fin 0.2" "current v = Fin 0.2"
       "flowDirection l = Inflow" "change24h m = Fin 6"
    using that by (simp add: determineOptimalAction_def Let_def jgt_def jmul_Fin)
  show ?thesis
    using eq ex
    by (simp add: generateExecutionGuidance_def generateExecutionGuidance_try_def Let_def)
qed

theorem determineOptimalAction_example_buy:
  "spec_action
     \<lparr>overall = Fin 20, technical = Fin 10, governance = Fin 70, market = Fin 30,
      liquidity = Fin 40, RiskAssessment.timestamp = Fin 0\<rparr>
     \<lparr>current = Fin 0.2, predicted1h = Fin 0.2, predicted24h = Fin 0.2, predicted7d = Fin 0.2,
      VolatilityPrediction.confidence = Fin 0.9,
      garchParams = \<lparr>alpha = Fin 0.1, beta = Fin 0.85, omega = Fin 0.001\<rparr>\<rparr>
     \<lparr>currentTVL = Fin 1000, predictedTVL1h = Fin 1011, predictedTVL24h = Fin 1020,
      predictedTVL7d = Fin 1030, flowDirection = Inflow,
      LiquidityPrediction.confidence = Fin 0.8\<rparr>
     \<lparr>change24h = Fin 6\<rparr> = Buy \<and>
   action (projr (generateExecutionGuidance
     \<lparr>overall = Fin 20, technical = Fin 10, governance = Fin 70, market = Fin 30,
      liquidity = Fin 40, RiskAssessment.timestamp = Fin 0\<rparr>
     \<lparr>current = Fin 0.2, predicted1h = Fin 0.2, predicted24h = Fin 0.2, predicted7d = Fin 0.2,
      VolatilityPrediction.confidence = Fin 0.9,
      garchParams = \<lparr>alpha = Fin 0.1, beta = Fin 0.85, omega = Fin 0.001\<rparr>\<rparr>
     \<lparr>currentTVL = Fin 1000, predictedTVL1h = Fin 1011, predictedTVL24h = Fin 1020,
      predictedTVL7d = Fin 1030, flowDirection = Inflow,
      LiquidityPrediction.confidence = Fin 0.8\<rparr>
     \<lparr>change24h = Fin 6\<rparr> None (Fin 1000))) = Buy"
proof -
  let ?r = "\<lparr>overall = Fin 20, technical = Fin 10, governance = Fin 70, market = Fin 30,
           liquidity = Fin 40, RiskAssessment.timestamp = Fin 0\<rparr>"
  let ?v = "\<lparr>current = Fin 0.2, predicted1h = Fin 0.2, predicted24h = Fin 0.2,
           predicted7d = Fin 0.2, VolatilityPrediction.confidence = Fin 0.9,
           garchParams = \<lparr>alpha = Fin 0.1, beta = Fin 0.85, omega = Fin 0.001\<rparr>\<rparr>"
  let ?l = "\<lparr>currentTVL = Fin 1000, predictedTVL1h = Fin 1011, predictedTVL24h = Fin 1020,
           predictedTVL7d = Fin 1030, flowDirection = Inflow,
           LiquidityPrediction.confidence = Fin 0.8\<rparr>"
  let ?m = "\<lparr>change24h = Fin 6\<rparr>"
  note t = determineOptimalAction_matches_scoring
    [of ?r ?v ?l ?m None "Fin 1000" "Some \<lparr>riskTolerance = Fin 0.9\<rparr>" "Fin 2000"]
  have buy: "determineOptimalAction ?r ?v ?l ?m = Buy"
    using t [THEN conjunct2, THEN conjunct2, THEN conjunct2, THEN conjunct2] by simp
  have e: "determineOptimalAction ?r ?v ?l ?m = spec_action ?r ?v ?l ?m"
    by (rule t [THEN conjunct1])
  have a: "action (projr (generateExecutionGuidance ?r ?v ?l ?m None (Fin 1000)))
      = spec_action ?r ?v ?l ?m"
    by (rule t [THEN conjunct2, THEN conjunct1])
  show ?thesis
    unfolding a unfolding e [symmetric] buy by simp
qed

text \<open>
  Claim C5: for every risk assessment whose overall risk lies in \<open>[0, 100]\<close> (technical and
  governance risk, market data and user profile are arbitrary) the recommended weights are
  finite and sum to 1 within \<open>1e-9\<close>, both as a sum of their values and as the sum
  JavaScript computes from left to right.
\<close>

theorem rebalancing_weights_sum_to_one:
  assumes "jle (Fin 0) (overall r)" "jle (overall r) (Fin 100)"
  shows "list_all is_fin (map recommendedWeight (generateRebalancingRecommendations r m u)) \<and>
    \<bar>sum_list (map (nval \<circ> recommendedWeight) (generateRebalancingRecommendations r m u)) - 1\<bar>
       \<le> 1 / 10 ^ 9 \<and>
    is_fin (reduce_sum recommendedWeight (generateRebalancingRecommendations r m u)) \<and>
    \<bar>nval (reduce_sum recommendedWeight (generateRebalancingRecommendations r m u)) - 1\<bar>
       \<le> 1 / 10 ^ 9"
proof -
  from rebalancing_normalised [OF assms, of m u] obtain usdc where
    "\<exists>tok total. is_fin usdc \<and> is_fin tok \<and> is_fin total \<and> 0 < nval total \<and>
       nval total = 7/10 + nval usdc + nval tok \<and>
       map recommendedWeight (generateRebalancingRecommendations r m u) =
         [jdiv (Fin 0.4) total, jdiv (Fin 0.3) total, jdiv usdc total, jdiv tok total]" ..
  then obtain tok where
    "\<exists>total. is_fin usdc \<and> is_fin tok \<and> is_fin total \<and> 0 < nval total \<and>
       nval total = 7/10 + nval usdc + nval tok \<and>
       map recommendedWeight (generateRebalancingRecommendations r m u) =
         [jdiv (Fin 0.4) total, jdiv (Fin 0.3) total, jdiv usdc total, jdiv tok total]" ..
  then obtain total where all:
    "is_fin usdc \<and> is_fin tok \<and> is_fin total \<and> 0 < nval total \<and>
       nval total = 7/10 + nval usdc + nval tok \<and>
       map recommendedWeight (generateRebalancingRecommendations r m u) =
         [jdiv (Fin 0.4) total, jdiv (Fin 0.3) total, jdiv usdc total, jdiv tok total]" ..
  from all have u: "is_fin usdc" and t: "is_fin tok"
    and tot: "is_fin total" "nval total = 7/10 + nval usdc + nval tok" and pos: "0 < nval total"
    and recs: "map recommendedWeight (generateRebalancingRecommendations r m u) =
      [jdiv (Fin 0.4) total, jdiv (Fin 0.3) total, jdiv usdc total, jdiv tok total]"
    by simp_all
  have fin: "is_fin (jdiv (Fin 0.4) total)" "is_fin (jdiv (Fin 0.3) total)"
    "is_fin (jdiv usdc total)" "is_fin (jdiv tok total)"
    using tot u t pos by (simp_all add: is_fin_simps)
  have vals: "nval (jdiv (Fin 0.4) total) = (4/10) / nval total"
    "nval (jdiv (Fin 0.3) total) = (3/10) / nval total"
    "nval (jdiv usdc total) = nval usdc / nval total"
    "nval (jdiv tok total) = nval tok / nval total"
    using tot u t pos by (simp_all add: nval_simps)
  have "(4/10) / nval total + (3/10) / nval total + nval usdc / nval total
          + nval tok / nval total
      = (4/10 + 3/10 + nval usdc + nval tok) / nval total"
    by (simp add: add_divide_distrib)
  also have "\<dots> = 1"
    using pos tot(2) by simp
  finally have one: "(4/10) / nval total + (3/10) / nval total + nval usdc / nval total
      + nval tok / nval total = 1" .
  have s1: "sum_list (map (nval \<circ> recommendedWeight)
      (generateRebalancingRecommendations r m u)) = 1"
    using recs vals one by (simp add: map_map [symmetric] del: map_map)
  have "reduce_sum recommendedWeight (generateRebalancingRecommendations r m u)
      = foldl jadd (Fin 0) (map recommendedWeight (generateRebalancingRecommendations r m u))"
    by (simp add: reduce_sum_def foldl_map)
  then have rs: "reduce_sum recommendedWeight (generateRebalancingRecommendations r m u)
     = jadd (jadd (jadd (jadd (Fin 0) (jdiv (Fin 0.4) total)) (jdiv (Fin 0.3) total))
          (jdiv usdc total)) (jdiv tok total)"
    unfolding recs by simp
  have s2: "is_fin (reduce_sum recommendedWeight (generateRebalancingRecommendations r m u))"
       "nval (reduce_sum recommendedWeight (generateRebalancingRecommendations r m u)) = 1"
    unfolding rs using fin vals one by (simp_all add: is_fin_simps nval_simps)
  show ?thesis
    using recs fin s1 s2 by simp
qed

theorem rebalancing_weights_sum_to_one_witness:
  "jle (Fin 0) (Fin 80) \<and> jle (Fin 80) (Fin 100) \<and>
   \<bar>nval (reduce_sum recommendedWeight (generateRebalancingRecommendations
       \<lparr>overall = Fin 80, technical = Fin 75, governance = Fin 20, market = Fin 30,
        liquidity = Fin 40, RiskAssessment.timestamp = Fin 0\<rparr>
       \<lparr>change24h = Fin 6\<rparr> None)) - 1\<bar> \<le> 1 / 10 ^ 9"
  using rebalancing_weights_sum_to_one
    [of "\<lparr>overall = Fin 80, technical = Fin 75, governance = Fin 20, market = Fin 30,
           liquidity = Fin 40, RiskAssessment.timestamp = Fin 0\<rparr>" "\<lparr>change24h = Fin 6\<rparr>" None]
  by simp

text \<open>
  Claim C7: for every risk vector whose four components lie in \<open>[0, 100]\<close> the
  risk-consistency term, computed with the denominator 4, lies in \<open>[0.3, 1.0]\<close>.
\<close>

theorem calculateRiskConsistency_bounded:
  assumes "jle (Fin 0) (technical r)" "jle (technical r) (Fin 100)"
    and "jle (Fin 0) (governance r)" "jle (governance r) (Fin 100)"
    and "jle (Fin 0) (market r)" "jle (market r) (Fin 100)"
    and "jle (Fin 0) (liquidity r)" "jle (liquidity r) (Fin 100)"
  shows "jle (Fin 0.3) (calculateRiskConsistency r) \<and> jle (calculateRiskConsistency r) (Fin 1.0)"
proof -
  have f: "is_fin (technical r)" "is_fin (governance r)" "is_fin (market r)"
    "is_fin (liquidity r)"
    using assms range_fin by blast+
  show ?thesis
    using risk_consistency_value [OF f] by (simp add: jle_fin)
qed

theorem calculateRiskConsistency_bounded_witness:
  "jle (Fin 0) (Fin 10) \<and> jle (Fin 10) (Fin 100) \<and>
   jle (Fin 0) (Fin 90) \<and> jle (Fin 90) (Fin 100) \<and>
   jle (Fin 0.3) (calculateRiskConsistency
      \<lparr>overall = Fin 50, technical = Fin 10, governance = Fin 90, market = Fin 10,
       liquidity = Fin 90, RiskAssessment.timestamp = Fin 0\<rparr>) \<and>
   jle (calculateRiskConsistency
      \<lparr>overall = Fin 50, technical = Fin 10, governance = Fin 90, market = Fin 10,
       liquidity = Fin 90, RiskAssessment.timestamp = Fin 0\<rparr>) (Fin 1.0)"
  using calculateRiskConsistency_bounded
    [of "\<lparr>overall = Fin 50, technical = Fin 10, governance = Fin 90, market = Fin 10,
           liquidity = Fin 90, RiskAssessment.timestamp = Fin 0\<rparr>"]
  by simp

text \<open>
  Claim C10: for every risk assessment, market data and user profile the output lists
  ETH, BTC, USDC and PROTOCOL_TOKEN in this order with the current weights 0.4, 0.3, 0.2
  and 0.1; the weights of ETH and BTC are not adjusted before the normalisation, so with
  the overall risk in \<open>[0, 100]\<close> the recommended ETH and BTC weights are finite and
  positive and their ratio is 4 : 3.
\<close>

theorem rebalancing_frame_and_ratio:
  "map asset (generateRebalancingRecommendations r m u)
     = [''ETH'', ''BTC'', ''USDC'', ''PROTOCOL_TOKEN''] \<and>
   map currentWeight (generateRebalancingRecommendations r m u)
     = [Fin 0.4, Fin 0.3, Fin 0.2, Fin 0.1] \<and>
   adjustedWeight r x ''ETH'' w = w \<and> adjustedWeight r x ''BTC'' w = w \<and>
   (jle (Fin 0) (overall r) \<and> jle (overall r) (Fin 100) \<longrightarrow>
      is_fin (recommendedWeight (generateRebalancingRecommendations r m u ! 0)) \<and>
      is_fin (recommendedWeight (generateRebalancingRecommendations r m u ! 1)) \<and>
      0 < nval (recommendedWeight (generateRebalancingRecommendations r m u ! 1)) \<and>
      nval (recommendedWeight (generateRebalancingRecommendations r m u ! 0)) /
      nval (recommendedWeight (generateRebalancingRecommendations r m u ! 1)) = 4 / 3)"
proof -
  have len: "length (generateRebalancingRecommendations r m u) = 4"
    by (simp add: rebalancing_unfold Let_def)
  have ratio: "is_fin (recommendedWeight (generateRebalancingRecommendations r m u ! 0)) \<and>
      is_fin (recommendedWeight (generateRebalancingRecommendations r m u ! 1)) \<and>
      0 < nval (recommendedWeight (generateRebalancingRecommendations r m u ! 1)) \<and>
      nval (recommendedWeight (generateRebalancingRecommendations r m u ! 0)) /
      nval (recommendedWeight (generateRebalancingRecommendations r m u ! 1)) = 4 / 3"
    if a: "jle (Fin 0) (overall r)" "jle (overall r) (Fin 100)"
  proof -
    from rebalancing_normalised [OF a, of m u] obtain usdc where
      "\<exists>tok total. is_fin usdc \<and> is_fin tok \<and> is_fin total \<and> 0 < nval total \<and>
         nval total = 7/10 + nval usdc + nval tok \<and>
         map recommendedWeight (generateRebalancingRecommendations r m u) =
           [jdiv (Fin 0.4) total, jdiv (Fin 0.3) total, jdiv usdc total, jdiv tok total]" ..
    then obtain tok where
      "\<exists>total. is_fin usdc \<and> is_fin tok \<and> is_fin total \<and> 0 < nval total \<and>
         nval total = 7/10 + nval usdc + nval tok \<and>
         map recommendedWeight (generateRebalancingRecommendations r m u) =
           [jdiv (Fin 0.4) total, jdiv (Fin 0.3) total, jdiv usdc total, jdiv tok total]" ..
    then obtain total where all:
      "is_fin usdc \<and> is_fin tok \<and> is_fin total \<and> 0 < nval total \<and>
         nval total = 7/10 + nval usdc + nval tok \<and>
         map recommendedWeight (generateRebalancingRecommendations r m u) =
           [jdiv (Fin 0.4) total, jdiv (Fin 0.3) total, jdiv usdc total, jdiv tok total]" ..
    from all have tot: "is_fin total" and pos: "0 < nval total"
      and recs: "map recommendedWeight (generateRebalancingRecommendations r m u) =
        [jdiv (Fin 0.4) total, jdiv (Fin 0.3) total, jdiv usdc total, jdiv tok total]"
      by simp_all
    have "map recommendedWeight (generateRebalancingRecommendations r m u) ! 0
            = jdiv (Fin 0.4) total"
      and "map recommendedWeight (generateRebalancingRecommendations r m u) ! 1
            = jdiv (Fin 0.3) total"
      unfolding recs by simp_all
    then have e: "recommendedWeight (generateRebalancingRecommendations r m u ! 0)
            = jdiv (Fin 0.4) total"
      and b: "recommendedWeight (generateRebalancingRecommendations r m u ! 1)
            = jdiv (Fin 0.3) total"
      using len by simp_all
    have ne: "nval total \<noteq> 0"
      using pos by simp
    have q: "(4 / 10 / nval total) / (3 / 10 / nval total) = 4 / 3"
      using ne by simp
    have "is_fin (jdiv (Fin 0.4) total)" "is_fin (jdiv (Fin 0.3) total)"
         "nval (jdiv (Fin 0.4) total) = 4 / 10 / nval total"
         "nval (jdiv (Fin 0.3) total) = 3 / 10 / nval total"
      using tot ne by (simp_all add: is_fin_simps nval_simps)
    then show ?thesis
      unfolding e b using q pos by simp
  qed
  have frame: "map asset (generateRebalancingRecommendations r m u)
       = [''ETH'', ''BTC'', ''USDC'', ''PROTOCOL_TOKEN''] \<and>
     map currentWeight (generateRebalancingRecommendations r m u)
       = [Fin 0.4, Fin 0.3, Fin 0.2, Fin 0.1]"
    by (simp add: rebalancing_unfold Let_def)
  show ?thesis
    using frame ratio by (simp add: adjustedWeight_def)
qed

theorem rebalancing_frame_and_ratio_witness:
  "jle (Fin 0) (Fin 80) \<and> jle (Fin 80) (Fin 100) \<and>
   nval (recommendedWeight (generateRebalancingRecommendations
       \<lparr>overall = Fin 80, technical = Fin 75, governance = Fin 20, market = Fin 30,
        liquidity = Fin 40, RiskAssessment.timestamp = Fin 0\<rparr>
       \<lparr>change24h = Fin 6\<rparr> (Some \<lparr>riskTolerance = Fin 0.7\<rparr>) ! 0)) /
   nval (recommendedWeight (generateRebalancingRecommendations
       \<lparr>overall = Fin 80, technical = Fin 75, governance = Fin 20, market = Fin 30,
        liquidity = Fin 40, RiskAssessment.timestamp = Fin 0\<rparr>
       \<lparr>change24h = Fin 6\<rparr> (Some \<lparr>riskTolerance = Fin 0.7\<rparr>) ! 1)) = 4 / 3"
  using rebalancing_frame_and_ratio
    [of "\<lparr>overall = Fin 80, technical = Fin 75, governance = Fin 20, market = Fin 30,
           liquidity = Fin 40, RiskAssessment.timestamp = Fin 0\<rparr>" "\<lparr>change24h = Fin 6\<rparr>"
        "Some \<lparr>riskTolerance = Fin 0.7\<rparr>" "Fin 0" "Fin 0"]
  by simp

section \<open>Claims about the liquidity model\<close>

text \<open>
  Claim C8: for a finite current TVL above 0 and a finite 1h forecast the direction is
  inflow exactly when the relative change \<open>(predicted - current) / current\<close> exceeds 1%,
  outflow exactly when it is below -1%, and stable otherwise. A forecast of \<open>Infinity\<close> is
  an inflow, one of \<open>-Infinity\<close> an outflow, and NaN is stable.
\<close>

theorem determineFlowDirection_thresholds:
  assumes "is_fin cur" "0 < nval cur"
  shows "(is_fin predicted \<longrightarrow>
           (determineFlowDirection predicted cur = Inflow
              \<longleftrightarrow> 1/100 < (nval predicted - nval cur) / nval cur) \<and>
           (determineFlowDirection predicted cur = Outflow
              \<longleftrightarrow> (nval predicted - nval cur) / nval cur < - (1/100)) \<and>
           (determineFlowDirection predicted cur = Stable
              \<longleftrightarrow> - (1/100) \<le> (nval predicted - nval cur) / nval cur \<and>
                  (nval predicted - nval cur) / nval cur \<le> 1/100)) \<and>
         determineFlowDirection PInf cur = Inflow \<and>
         determineFlowDirection NInf cur = Outflow \<and>
         determineFlowDirection NaN cur = Stable"
proof -
  have fin: "(determineFlowDirection predicted cur = Inflow
              \<longleftrightarrow> 1/100 < (nval predicted - nval cur) / nval cur) \<and>
           (determineFlowDirection predicted cur = Outflow
              \<longleftrightarrow> (nval predicted - nval cur) / nval cur < - (1/100)) \<and>
           (determineFlowDirection predicted cur = Stable
              \<longleftrightarrow> - (1/100) \<le> (nval predicted - nval cur) / nval cur \<and>
                  (nval predicted - nval cur) / nval cur \<le> 1/100)"
    if p: "is_fin predicted"
  proof -
    define change where "change = jdiv (jsub predicted cur) cur"
    have c: "is_fin change" "nval change = (nval predicted - nval cur) / nval cur"
      unfolding change_def using assms p by (simp_all add: is_fin_simps nval_simps)
    have d: "determineFlowDirection predicted cur =
       (if jgt change (Fin 0.01) then Inflow
        else if jlt change (Fin (- 0.01)) then Outflow else Stable)"
      unfolding determineFlowDirection_def Let_def change_def ..
    show ?thesis
      unfolding d by (rule flow_cases [OF c])
  qed
  have inf: "determineFlowDirection PInf cur = Inflow"
    "determineFlowDirection NInf cur = Outflow"
    "determineFlowDirection NaN cur = Stable"
    using assms
    by (cases cur; simp add: determineFlowDirection_def Let_def jgt_def jlt_def jarith_defs)+
  show ?thesis
    using fin inf by blast
qed

text \<open>With a current TVL of 1000: 1011 is an inflow, 989 an outflow, 1005 stable.\<close>

theorem determineFlowDirection_examples:
  "is_fin (Fin 1000) \<and> 0 < nval (Fin 1000) \<and>
   determineFlowDirection (Fin 1011) (Fin 1000) = Inflow \<and>
   determineFlowDirection (Fin 989) (Fin 1000) = Outflow \<and>
   determineFlowDirection (Fin 1005) (Fin 1000) = Stable"
  using determineFlowDirection_thresholds [of "Fin 1000" "Fin 1011"]
    determineFlowDirection_thresholds [of "Fin 1000" "Fin 989"]
    determineFlowDirection_thresholds [of "Fin 1000" "Fin 1005"]
  by simp

text \<open>
  Claim C9: on the empty TVL history \<open>predictLiquidityFlow\<close> does not fail. The current
  TVL is 0; the relative change the classifier computes from the 1h forecast is \<open>0/0\<close>,
  that is NaN, and the direction is stable, whatever the event, the clock and the random
  draws are. When no event is given, or the event has one of the three declared types
  (governance, implementation, parameter) and a finite risk score, the three forecasts
  are zeros.
\<close>

theorem predictLiquidityFlow_empty_history:
  "\<not> isl (predictLiquidityFlow [] ev hourOfDay dayOfWeek u1 u2 u3 rnd) \<and>
   currentTVL (projr (predictLiquidityFlow [] ev hourOfDay dayOfWeek u1 u2 u3 rnd)) = Fin 0 \<and>
   flowDirection (projr (predictLiquidityFlow [] ev hourOfDay dayOfWeek u1 u2 u3 rnd)) = Stable \<and>
   jdiv (jsub (predictedTVL1h (projr (predictLiquidityFlow [] ev hourOfDay dayOfWeek u1 u2 u3 rnd)))
              (Fin 0)) (Fin 0) = NaN \<and>
   ((\<forall>e. ev = Some e \<longrightarrow>
         is_fin (riskScore e) \<and>
         (eventType e = ''governance'' \<or> eventType e = ''implementation'' \<or>
          eventType e = ''parameter'')) \<longrightarrow>
     jeq (predictedTVL1h (projr (predictLiquidityFlow [] ev hourOfDay dayOfWeek u1 u2 u3 rnd)))
         (Fin 0) \<and>
     jeq (predictedTVL24h (projr (predictLiquidityFlow [] ev hourOfDay dayOfWeek u1 u2 u3 rnd)))
         (Fin 0) \<and>
     jeq (predictedTVL7d (projr (predictLiquidityFlow [] ev hourOfDay dayOfWeek u1 u2 u3 rnd)))
         (Fin 0))"
proof -
  define ei where "ei = (case ev of None \<Rightarrow> Fin 1 | Some e \<Rightarrow> calculateEventImpact e)"
  have ei: "is_fin ei"
    if "\<forall>e. ev = Some e \<longrightarrow>
         is_fin (riskScore e) \<and>
         (eventType e = ''governance'' \<or> eventType e = ''implementation'' \<or>
          eventType e = ''parameter'')"
  proof (cases ev)
    case None
    then show ?thesis
      by (simp add: ei_def)
  next
    case (Some e)
    with that have "is_fin (riskScore e)"
      and "eventType e = ''governance'' \<or> eventType e = ''implementation'' \<or>
           eventType e = ''parameter''"
      by simp_all
    then have "is_fin (calculateEventImpact e)"
      by (rule eventImpact_fin)
    with Some show ?thesis
      by (simp add: ei_def)
  qed
  have tr: "calculateTrend [] = Fin 0"
    by (simp add: calculateTrend_def)
  have vo: "calculateTVLVolatility [] = Fin (1/100)"
    by (simp add: calculateTVLVolatility_def)
  have "\<exists>h1 d1 d7 c.
      generateTVLPredictions (Fin 0) (Fin 0) (calculateSeasonality hourOfDay dayOfWeek)
        (Fin (1/100)) ei u1 u2 u3 = (h1, d1, d7, c) \<and>
      (is_zero h1 \<or> h1 = NaN) \<and> (is_fin ei \<longrightarrow> is_zero h1 \<and> is_zero d1 \<and> is_zero d7)"
    by (rule predictions_zero) (simp_all add: seasonality_fin)
  then obtain h1 d1 d7 c where
    p: "generateTVLPredictions (Fin 0) (Fin 0) (calculateSeasonality hourOfDay dayOfWeek)
          (Fin (1/100)) ei u1 u2 u3 = (h1, d1, d7, c)"
    and h: "is_zero h1 \<or> h1 = NaN"
    and z: "is_fin ei \<longrightarrow> is_zero h1 \<and> is_zero d1 \<and> is_zero d7"
    by blast
  have r: "predictLiquidityFlow [] ev hourOfDay dayOfWeek u1 u2 u3 rnd =
      Inr \<lparr>currentTVL = Fin 0, predictedTVL1h = h1, predictedTVL24h = d1, predictedTVL7d = d7,
           flowDirection = determineFlowDirection h1 (Fin 0),
           LiquidityPrediction.confidence = c\<rparr>"
    unfolding predictLiquidityFlow_def predictLiquidityFlow_try_def Let_def tr vo ei_def [symmetric]
    by (simp add: p)
  have ch: "jdiv (jsub h1 (Fin 0)) (Fin 0) = NaN"
    by (rule zero_change [OF h])
  have st: "determineFlowDirection h1 (Fin 0) = Stable"
    by (simp add: determineFlowDirection_def Let_def ch jgt_def)
  have zeros: "jeq h1 (Fin 0) \<and> jeq d1 (Fin 0) \<and> jeq d7 (Fin 0)"
    if "\<forall>e. ev = Some e \<longrightarrow>
         is_fin (riskScore e) \<and>
         (eventType e = ''governance'' \<or> eventType e = ''implementation'' \<or>
          eventType e = ''parameter'')"
    using z ei [OF that] by (simp add: zero_jeq)
  show ?thesis
    unfolding r using zeros ch st by simp
qed

text \<open>
  An implementation event with risk score 60 on a weekday morning: the direction is
  stable and the forecasts are zeros.
\<close>

theorem predictLiquidityFlow_empty_history_witness:
  "flowDirection (projr (predictLiquidityFlow []
       (Some \<lparr>eventType = ''implementation'', riskScore = Fin 60\<rparr>)
       10 3 (1/4) (1/2) (3/4) draws_half))
     = Stable \<and>
   jeq (predictedTVL1h (projr (predictLiquidityFlow []
       (Some \<lparr>eventType = ''implementation'', riskScore = Fin 60\<rparr>)
       10 3 (1/4) (1/2) (3/4) draws_half)))
     (Fin 0) \<and>
   jeq (predictedTVL7d (projr (predictLiquidityFlow []
       (Some \<lparr>eventType = ''implementation'', riskScore = Fin 60\<rparr>)
       10 3 (1/4) (1/2) (3/4) draws_half)))
     (Fin 0)"
  using predictLiquidityFlow_empty_history
    [of "Some \<lparr>eventType = ''implementation'', riskScore = Fin 60\<rparr>"
        10 3 "1/4" "1/2" "3/4" draws_half]
  by simp

end
